theory Spec2Isabelle
  imports Main "HOL-Library.Word" "HOL-Library.Monad_Syntax" "HOL-Library.Multiset"
begin

unbundle bit_operations_syntax

section \<open>Data model of sidus.cpp\<close>

text \<open>
  The input file is an immutable buffer of bytes. A C pointer \<open>data + k\<close> into it is the
  buffer together with the offset \<open>k\<close>. A read outside the buffer is undefined behaviour
  in C++; the model makes it the value \<open>None\<close>, and every function that reads returns an
  option.

  The C++ \<open>int\<close> is a \<open>32 word\<close> read as two's complement (\<open>sint\<close>). Signed overflow
  (\<open>std::abs\<close> or unary minus of the least value, a product too large) is undefined in C++;
  the model takes the two's complement result that \<open>+\<close>, \<open>-\<close> and \<open>*\<close> on words give.

  A \<open>float\<close> or \<open>double\<close> is kept as its IEEE-754 bit pattern (\<open>32 word\<close>, \<open>64 word\<close>):
  the decoder only reassembles the bits, it does no arithmetic on them.
\<close>

type_synonym byte = "8 word"
type_synonym buffer = "byte list"

datatype Epoch = Epoch_AUTO | J2000 | B1950
datatype Endian = Endian_AUTO | LITTLE | BIG

text \<open>
  \<open>Header::StarId\<close> and \<open>Header::ProperMotion\<close> are unscoped enums that \<open>parseHeader\<close>
  fills by a cast from the file's integer, without a range check. The fields therefore
  hold the integer itself; the enumerators are the constants below.
\<close>

definition NO_STAR_ID :: "32 word" where "NO_STAR_ID = 0"
definition CATALOG_STAR_ID :: "32 word" where "CATALOG_STAR_ID = 1"
definition GSC_STAR_ID :: "32 word" where "GSC_STAR_ID = 2"
definition TYCHO_STAR_ID :: "32 word" where "TYCHO_STAR_ID = 3"
definition INTEGER_STAR_ID :: "32 word" where "INTEGER_STAR_ID = 4"

definition NO_PROPER_MOTION :: "32 word" where "NO_PROPER_MOTION = 0"
definition PROPER_MOTION :: "32 word" where "PROPER_MOTION = 1"
definition RADIAL_VELOCITY :: "32 word" where "RADIAL_VELOCITY = 2"

record Header =
  numStars :: "32 word"
  starId :: "32 word"
  starNameLength :: "32 word"
  properMotion :: "32 word"
  numMagnitudes :: "32 word"
  apparentMagnitude :: "32 word"
  numBytesPerStar :: "32 word"
  epoch :: Epoch
  littleEndian :: bool

text \<open>
  The early returns of \<open>parseHeader\<close> and \<open>main\<close>, one constructor for each diagnostic:
  \<^item> \<open>AmbiguousFormat\<close>: "sidus: invalid header" (neither byte order fits);
  \<^item> \<open>WrongEndianness e\<close>: "invalid header, maybe try big-endian?" for \<open>e = LITTLE\<close>,
    "... maybe try little-endian?" for \<open>e = BIG\<close>;
  \<^item> \<open>EpochMismatch e\<close>: "expected \<open>e\<close> epoch but found" the other one;
  \<^item> \<open>EmptyFile\<close>: "empty"; \<open>NoHeader\<close>: "no header"; \<open>FileTooShort\<close>: "file too short";
  \<^item> \<open>TooFewMagnitudes\<close>: "expected at least one magnitude per star".
\<close>

datatype error =
    AmbiguousFormat
  | WrongEndianness Endian
  | EpochMismatch Epoch
  | EmptyFile
  | NoHeader
  | FileTooShort
  | TooFewMagnitudes

section \<open>Reading integers and floats from the buffer\<close>

definition byteAt :: "buffer \<Rightarrow> int \<Rightarrow> byte option" where
  "byteAt buf i = (if 0 \<le> i \<and> i < int (length buf) then Some (buf ! nat i) else None)"

text \<open>The four overloads of \<open>parse\<close>, named by the type they decode.\<close>

definition parse_int16 :: "buffer \<Rightarrow> int \<Rightarrow> bool \<Rightarrow> 16 word option" where
  "parse_int16 buf p le = do {
     d0 \<leftarrow> byteAt buf p;
     d1 \<leftarrow> byteAt buf (p + 1);
     Some (if le
       then push_bit 0 (ucast d0) OR push_bit 8 (ucast d1)
       else push_bit 8 (ucast d0) OR push_bit 0 (ucast d1))
   }"

definition compose32 :: "byte \<Rightarrow> byte \<Rightarrow> byte \<Rightarrow> byte \<Rightarrow> bool \<Rightarrow> 32 word" where
  "compose32 d0 d1 d2 d3 le =
     (if le
      then push_bit 0 (ucast d0) OR push_bit 8 (ucast d1) OR
           push_bit 16 (ucast d2) OR push_bit 24 (ucast d3)
      else push_bit 24 (ucast d0) OR push_bit 16 (ucast d1) OR
           push_bit 8 (ucast d2) OR push_bit 0 (ucast d3))"

definition parse_int32 :: "buffer \<Rightarrow> int \<Rightarrow> bool \<Rightarrow> 32 word option" where
  "parse_int32 buf p le = do {
     d0 \<leftarrow> byteAt buf p;
     d1 \<leftarrow> byteAt buf (p + 1);
     d2 \<leftarrow> byteAt buf (p + 2);
     d3 \<leftarrow> byteAt buf (p + 3);
     Some (compose32 d0 d1 d2 d3 le)
   }"

text \<open>\<open>parse(float*)\<close> composes the same 32 bits and copies them into the float.\<close>

definition parse_float :: "buffer \<Rightarrow> int \<Rightarrow> bool \<Rightarrow> 32 word option" where
  "parse_float buf p le = do {
     d0 \<leftarrow> byteAt buf p;
     d1 \<leftarrow> byteAt buf (p + 1);
     d2 \<leftarrow> byteAt buf (p + 2);
     d3 \<leftarrow> byteAt buf (p + 3);
     Some (compose32 d0 d1 d2 d3 le)
   }"

definition parse_double :: "buffer \<Rightarrow> int \<Rightarrow> bool \<Rightarrow> 64 word option" where
  "parse_double buf p le = do {
     d0 \<leftarrow> byteAt buf p;
     d1 \<leftarrow> byteAt buf (p + 1);
     d2 \<leftarrow> byteAt buf (p + 2);
     d3 \<leftarrow> byteAt buf (p + 3);
     d4 \<leftarrow> byteAt buf (p + 4);
     d5 \<leftarrow> byteAt buf (p + 5);
     d6 \<leftarrow> byteAt buf (p + 6);
     d7 \<leftarrow> byteAt buf (p + 7);
     Some (if le
       then push_bit 0 (ucast d0) OR push_bit 8 (ucast d1) OR
            push_bit 16 (ucast d2) OR push_bit 24 (ucast d3) OR
            push_bit 32 (ucast d4) OR push_bit 40 (ucast d5) OR
            push_bit 48 (ucast d6) OR push_bit 56 (ucast d7)
       else push_bit 56 (ucast d0) OR push_bit 48 (ucast d1) OR
            push_bit 40 (ucast d2) OR push_bit 32 (ucast d3) OR
            push_bit 24 (ucast d4) OR push_bit 16 (ucast d5) OR
            push_bit 8 (ucast d6) OR push_bit 0 (ucast d7))
   }"

section \<open>parseHeader\<close>

text \<open>\<open>std::abs\<close> on \<open>int\<close>; at the least value the two's complement result is itself.\<close>

definition abs32 :: "32 word \<Rightarrow> 32 word" where
  "abs32 w = (if sint w < 0 then - w else w)"

text \<open>
  Lines 251 to 279 of \<open>parseHeader\<close>: the byte-order probe on the magnitude count at
  offset 20. It yields the byte order the rest of the header is read in, and the
  magnitude count \<open>nmag\<close> as read in that order.
\<close>

definition detectEndian :: "buffer \<Rightarrow> Endian \<Rightarrow> (error + Endian \<times> 32 word) option" where
  "detectEndian data endian =
     (if endian = Endian_AUTO then do {
        nmag \<leftarrow> parse_int32 data 20 True;
        if 10 < sint (abs32 nmag) then do {
          nmag' \<leftarrow> parse_int32 data 20 False;
          if 10 < sint (abs32 nmag') then Some (Inl AmbiguousFormat)
          else Some (Inr (BIG, nmag'))
        }
        else Some (Inr (LITTLE, nmag))
      }
      else if endian = LITTLE then do {
        nmag \<leftarrow> parse_int32 data 20 True;
        if 10 < sint (abs32 nmag) then Some (Inl (WrongEndianness LITTLE))
        else Some (Inr (LITTLE, nmag))
      }
      else do {
        nmag \<leftarrow> parse_int32 data 20 False;
        if 10 < sint (abs32 nmag) then Some (Inl (WrongEndianness BIG))
        else Some (Inr (BIG, nmag))
      })"

text \<open>
  Lines 281 to 311. \<open>header\<close> is the record the pointer argument refers to before the
  call: \<open>parseHeader\<close> assigns every field but \<open>apparentMagnitude\<close>.
\<close>

definition fillHeader ::
  "Header \<Rightarrow> buffer \<Rightarrow> Epoch \<Rightarrow> Endian \<Rightarrow> 32 word \<Rightarrow> (error + Header) option" where
  "fillHeader header data epch endian nmag = do {
     let le = (endian = LITTLE);
     starn \<leftarrow> parse_int32 data 8 le;
     stnum \<leftarrow> parse_int32 data 12 le;
     mprop \<leftarrow> parse_int32 data 16 le;
     nbent \<leftarrow> parse_int32 data 24 le;
     let isJ2000 = (sint starn < 0 \<or> sint nmag < 0);
     if epch = J2000 \<and> \<not> isJ2000 then Some (Inl (EpochMismatch J2000))
     else if epch = B1950 \<and> isJ2000 then Some (Inl (EpochMismatch B1950))
     else Some (Inr (header\<lparr>
       numStars := abs32 starn,
       starId := (if sint stnum < 0 then NO_STAR_ID else stnum),
       starNameLength := (if sint stnum < 0 then - stnum else 0),
       properMotion := mprop,
       numMagnitudes := abs32 nmag,
       numBytesPerStar := nbent,
       epoch := (if isJ2000 then J2000 else B1950),
       littleEndian := le\<rparr>))
   }"

definition parseHeader ::
  "Header \<Rightarrow> buffer \<Rightarrow> Epoch \<Rightarrow> Endian \<Rightarrow> (error + Header) option" where
  "parseHeader header data epch endian = do {
     r \<leftarrow> detectEndian data endian;
     case r of
       Inl e \<Rightarrow> Some (Inl e)
     | Inr (endian', nmag) \<Rightarrow> fillHeader header data epch endian' nmag
   }"

section \<open>parseStar\<close>

text \<open>
  \<open>Star::starId\<close> is a double computed from the file: \<open>0.0\<close>, a float widened to double,
  or an \<open>int\<close> converted to double. The model keeps where it comes from.
\<close>

datatype idnum = IdZero | IdOfFloat "32 word" | IdOfInt "32 word"

text \<open>
  \<open>magnitude\<close> holds the 16-bit integer \<open>mag\<close> of the file, in hundredths: the source stores
  the float \<open>(float)(mag)/100.0f\<close>, a function of \<open>mag\<close> alone. \<open>name\<close> holds the
  characters of the \<open>std::string\<close>; \<open>spectralType\<close> the two characters before the
  terminator.
\<close>

record Star =
  name :: "byte list"
  rightAscension :: "64 word"
  declination :: "64 word"
  starIdValue :: idnum
  magnitude :: "16 word"
  pmRightAscension :: "32 word"
  pmDeclination :: "32 word"
  radialVelocity :: "64 word"
  spectralType :: "byte list"

text \<open>
  The loop over the magnitudes (lines 349 to 354), \<open>n\<close> iterations left, at index \<open>i\<close>.
  \<open>mag\<close> is \<open>None\<close> as long as the local variable has not been assigned.
\<close>

fun magLoop ::
  "Header \<Rightarrow> buffer \<Rightarrow> int \<Rightarrow> nat \<Rightarrow> int \<Rightarrow> int \<Rightarrow> 16 word option
     \<Rightarrow> (int \<times> 16 word option) option" where
  "magLoop header data p 0 i cursor mag = Some (cursor, mag)"
| "magLoop header data p (Suc n) i cursor mag =
     (if i = sint (apparentMagnitude header)
      then (case parse_int16 data (p + cursor) (littleEndian header) of
              None \<Rightarrow> None
            | Some m \<Rightarrow> magLoop header data p n (i + 1) (cursor + 2) (Some m))
      else magLoop header data p n (i + 1) (cursor + 2) mag)"

text \<open>
  \<open>std::strncpy(dest, src, n)\<close>: the \<open>n\<close> characters of \<open>dest\<close> after the call. It copies
  up to the first NUL of the source and fills the rest with NUL; it reads no source
  character after that NUL.
\<close>

fun strncpy :: "buffer \<Rightarrow> int \<Rightarrow> nat \<Rightarrow> byte list option" where
  "strncpy data p 0 = Some []"
| "strncpy data p (Suc n) =
     (case byteAt data p of
        None \<Rightarrow> None
      | Some c \<Rightarrow>
          if c = 0 then Some (replicate (Suc n) 0)
          else map_option ((#) c) (strncpy data (p + 1) n))"

text \<open>The \<open>std::string\<close> built from a C string: its characters up to the first NUL.\<close>

definition string_of_cstr :: "byte list \<Rightarrow> byte list" where
  "string_of_cstr cs = takeWhile (\<lambda>c. c \<noteq> 0) cs"

text \<open>
  The blocks of \<open>parseStar\<close>, each from the cursor it starts at. Lines 324 to 338: the
  identifier, with the cursor after it.
\<close>

definition readStarId :: "Header \<Rightarrow> buffer \<Rightarrow> int \<Rightarrow> int \<Rightarrow> (idnum \<times> int) option" where
  "readStarId header data p cursor =
     (if starId header = CATALOG_STAR_ID \<or> starId header = GSC_STAR_ID \<or>
         starId header = TYCHO_STAR_ID
      then do {
        xno2 \<leftarrow> parse_float data (p + cursor) (littleEndian header);
        Some (IdOfFloat xno2, cursor + 4) }
      else if starId header = INTEGER_STAR_ID
      then do {
        xno2 \<leftarrow> parse_int32 data (p + cursor) (littleEndian header);
        Some (IdOfInt xno2, cursor + 4) }
      else Some (IdZero, cursor))"

text \<open>
  Lines 355 to 367: \<open>xrpm\<close>, \<open>xdpm\<close> and \<open>svel\<close>, with the cursor after them. The bit
  pattern 0 is \<open>0.0f\<close> and \<open>0.0\<close>.
\<close>

definition readMotion ::
  "Header \<Rightarrow> buffer \<Rightarrow> int \<Rightarrow> int \<Rightarrow> (32 word \<times> 32 word \<times> 64 word \<times> int) option" where
  "readMotion header data p cursor =
     (if properMotion header = PROPER_MOTION
      then do {
        xrpm \<leftarrow> parse_float data (p + cursor) (littleEndian header);
        xdpm \<leftarrow> parse_float data (p + (cursor + 4)) (littleEndian header);
        Some (xrpm, xdpm, 0, cursor + 4 + 4) }
      else if properMotion header = RADIAL_VELOCITY
      then do {
        svel \<leftarrow> parse_double data (p + cursor) (littleEndian header);
        Some (0, 0, svel, cursor + 8) }
      else Some (0, 0, 0, cursor))"

text \<open>
  Lines 368 to 372: the array \<open>starname\<close> up to its terminator at index
  \<open>starNameLength\<close>. An array \<open>starname[starNameLength + 1]\<close> of no positive size is
  undefined.
\<close>

definition readName :: "Header \<Rightarrow> buffer \<Rightarrow> int \<Rightarrow> int \<Rightarrow> byte list option" where
  "readName header data p cursor =
     (if sint (starNameLength header + 1) \<le> 0 then None
      else if 0 < sint (starNameLength header)
      then strncpy data (p + cursor) (nat (sint (starNameLength header)))
      else Some [])"

text \<open>
  \<open>parseStar header data p\<close> decodes the record that starts at offset \<open>p\<close> of the buffer.
  After the identifier the cursor advances by 8 over the right ascension, by 8 over the
  declination and by 1 over each character of the spectral type, which gives the offsets
  written out below. The result is \<open>None\<close> where the C++ is undefined: a read outside the
  buffer, a name array of no positive size, or a \<open>mag\<close> never assigned because
  \<open>apparentMagnitude\<close> is no index below \<open>numMagnitudes\<close>.
\<close>

definition parseStar :: "Header \<Rightarrow> buffer \<Rightarrow> int \<Rightarrow> Star option" where
  "parseStar header data p = do {
     (xno, cursor) \<leftarrow> readStarId header data p 0;
     ra \<leftarrow> parse_double data (p + cursor) (littleEndian header);
     decl \<leftarrow> parse_double data (p + (cursor + 8)) (littleEndian header);
     isp0 \<leftarrow> byteAt data (p + (cursor + 16));
     isp1 \<leftarrow> byteAt data (p + (cursor + 17));
     (cursor', mag) \<leftarrow>
       magLoop header data p (nat (sint (numMagnitudes header))) 0 (cursor + 18) None;
     (xrpm, xdpm, svel, cursor'') \<leftarrow> readMotion header data p cursor';
     starname \<leftarrow> readName header data p cursor'';
     m \<leftarrow> mag;
     Some \<lparr>
       name = string_of_cstr starname,
       rightAscension = ra,
       declination = decl,
       starIdValue = xno,
       magnitude = m,
       pmRightAscension = xrpm,
       pmDeclination = xdpm,
       radialVelocity = svel,
       spectralType = [isp0, isp1]\<rparr>
   }"

section \<open>Comparing doubles\<close>

text \<open>
  The comparisons of \<open>main\<close> on doubles, on the bit patterns. An IEEE-754 double is a sign
  bit and 63 bits of exponent and fraction; it is a NaN if these 63 bits exceed those of
  infinity, it is \<open>0.0\<close> or \<open>-0.0\<close> if they are all zero, and for two doubles that are no
  NaN, \<open><\<close> is the order of the signed magnitudes.
\<close>

definition double_magnitude :: "64 word \<Rightarrow> 64 word" where
  "double_magnitude b = b AND 0x7FFFFFFFFFFFFFFF"

definition double_isnan :: "64 word \<Rightarrow> bool" where
  "double_isnan b = (0x7FF0000000000000 < double_magnitude b)"

definition double_rank :: "64 word \<Rightarrow> int" where
  "double_rank b = (if bit b 63 then - uint (double_magnitude b) else uint (double_magnitude b))"

definition double_less :: "64 word \<Rightarrow> 64 word \<Rightarrow> bool" where
  "double_less a b = (\<not> double_isnan a \<and> \<not> double_isnan b \<and> double_rank a < double_rank b)"

definition double_is_zero :: "64 word \<Rightarrow> bool" where
  "double_is_zero b = (double_magnitude b = 0)"

section \<open>The multimap of main\<close>

text \<open>
  The key of \<open>std::multimap<double, Star>\<close> is the double that \<open>main\<close> inserts with the
  star: \<open>star.rightAscension\<close>, \<open>star.magnitude\<close> promoted to double, or the record index
  \<open>i\<close> converted to double. Both conversions are exact and increasing (a float of
  \<open>mag/100\<close> for a 16-bit \<open>mag\<close>, a 32-bit integer), so that \<open><\<close> on the keys is \<open><\<close> on
  \<open>mag\<close> and on \<open>i\<close>. One run inserts keys of one kind only.
\<close>

datatype key = KeyRA "64 word" | KeyMag "16 word" | KeyIndex int

fun key_less :: "key \<Rightarrow> key \<Rightarrow> bool" where
  "key_less (KeyRA a) (KeyRA b) = double_less a b"
| "key_less (KeyMag a) (KeyMag b) = (sint a < sint b)"
| "key_less (KeyIndex i) (KeyIndex j) = (i < j)"
| "key_less _ _ = False"

text \<open>
  The multimap is the red-black tree that the library builds for it (\<open>std::_Rb_tree\<close> of
  libstdc++): a node has a colour, a left subtree, its key with its star, and a right
  subtree. The iteration of \<open>for (auto const & pair : map)\<close> visits the nodes in symmetric
  order, \<open>mm_list\<close>; \<open>map.size()\<close> is their number.
\<close>

datatype rb_color = S_red | S_black

datatype rb_tree = Leaf | Node rb_color rb_tree key Star rb_tree

type_synonym multimap = rb_tree

fun mm_list :: "multimap \<Rightarrow> (key \<times> Star) list" where
  "mm_list Leaf = []"
| "mm_list (Node c l k v r) = mm_list l @ (k, v) # mm_list r"

text \<open>
  \<open>insert\<close> descends from the root, to the left of a node if the new key is \<open><\<close> the key
  of the node and to the right if not (\<open>_M_get_insert_equal_pos\<close>), down to an empty place.
  The nodes passed are the parent pointers of the place; they are kept as a path, the
  nearest node first: for each node the side on which the subtree below hangs, its
  colour, its key and star, and its other subtree.
\<close>

datatype side = LeftSide | RightSide

datatype frame = Frame side rb_color key Star rb_tree

fun get_insert_equal_pos :: "key \<Rightarrow> rb_tree \<Rightarrow> frame list \<Rightarrow> frame list" where
  "get_insert_equal_pos k Leaf path = path"
| "get_insert_equal_pos k (Node c l k' v' r) path =
     (if key_less k k'
      then get_insert_equal_pos k l (Frame LeftSide c k' v' r # path)
      else get_insert_equal_pos k r (Frame RightSide c k' v' l # path))"

text \<open>The subtree \<open>t\<close> under the node of a frame, and under all nodes of a path.\<close>

fun attach :: "rb_tree \<Rightarrow> frame \<Rightarrow> rb_tree" where
  "attach t (Frame LeftSide c k v r) = Node c t k v r"
| "attach t (Frame RightSide c k v l) = Node c l k v t"

fun rebuild :: "rb_tree \<Rightarrow> frame list \<Rightarrow> rb_tree" where
  "rebuild t [] = t"
| "rebuild t (p # path) = rebuild (attach t p) path"

text \<open>
  The two rotations (\<open>local_Rb_tree_rotate_left\<close> and \<open>local_Rb_tree_rotate_right\<close>) on
  the subtree of the node they turn, the assignment of a colour to a node, and the test
  \<open>y && y->_M_color == _S_red\<close>.
\<close>

fun rotate_left :: "rb_tree \<Rightarrow> rb_tree" where
  "rotate_left (Node c a k v (Node c' b k' v' d)) = Node c' (Node c a k v b) k' v' d"
| "rotate_left t = t"

fun rotate_right :: "rb_tree \<Rightarrow> rb_tree" where
  "rotate_right (Node c (Node c' a k' v' b) k v d) = Node c' a k' v' (Node c b k v d)"
| "rotate_right t = t"

fun paint :: "rb_color \<Rightarrow> rb_tree \<Rightarrow> rb_tree" where
  "paint c Leaf = Leaf"
| "paint c (Node c' l k v r) = Node c l k v r"

fun is_red :: "rb_tree \<Rightarrow> bool" where
  "is_red (Node S_red l k v r) = True"
| "is_red t = False"

text \<open>
  The loop of \<open>_Rb_tree_insert_and_rebalance\<close>, for the subtree of the node \<open>x\<close> and the
  path above it. The loop ends when \<open>x\<close> is the root or its parent is black. Else the
  parent has a parent \<open>xpp\<close> (the root is black), whose other child is \<open>y\<close>:
  \<^item> if \<open>y\<close> is red, the parent and \<open>y\<close> become black, \<open>xpp\<close> becomes red, and the loop goes
    on with \<open>x = xpp\<close>;
  \<^item> if not, and the parent is the left child of \<open>xpp\<close>: a right child \<open>x\<close> is first turned
    above its parent by a left rotation; then the node above becomes black, \<open>xpp\<close> becomes
    red and is turned to the right, which ends the loop; and the mirror image of this if
    the parent is the right child.
\<close>

fun insert_and_rebalance :: "rb_tree \<Rightarrow> frame list \<Rightarrow> rb_tree" where
  "insert_and_rebalance x [] = x"
| "insert_and_rebalance x [p] = attach x p"
| "insert_and_rebalance x (Frame sx cp kp vp tp # Frame sp cg kg vg y # path) =
     (let parent = attach x (Frame sx cp kp vp tp) in
      if cp = S_black then rebuild parent (Frame sp cg kg vg y # path)
      else case sp of
        LeftSide \<Rightarrow>
          if is_red y
          then insert_and_rebalance
                 (Node S_red (paint S_black parent) kg vg (paint S_black y)) path
          else rebuild
                 (rotate_right (Node S_red
                    (paint S_black (if sx = RightSide then rotate_left parent else parent))
                    kg vg y))
                 path
      | RightSide \<Rightarrow>
          if is_red y
          then insert_and_rebalance
                 (Node S_red (paint S_black y) kg vg (paint S_black parent)) path
          else rebuild
                 (rotate_left (Node S_red y kg vg
                    (paint S_black (if sx = LeftSide then rotate_right parent else parent))))
                 path)"

text \<open>
  \<open>map.insert\<close>: the new node is red and has no children; it hangs at the place that the
  descent reaches, on the side of the last step (\<open>_M_insert_node\<close> repeats the comparison
  of that step), or is the root of an empty tree. After the loop the root is made black.

  For keys that \<open><\<close> orders, the new element is then at the upper bound of its key in the
  iteration, behind the elements whose key is not greater (C++11, [associative.reqmts]).
  With a NaN right ascension among the keys, \<open><\<close> on doubles is no strict weak ordering,
  and the place of a new element depends on the shape of the tree.
\<close>

definition mm_insert :: "key \<Rightarrow> Star \<Rightarrow> multimap \<Rightarrow> multimap" where
  "mm_insert k v m =
     paint S_black
       (insert_and_rebalance (Node S_red Leaf k v Leaf) (get_insert_equal_pos k m []))"

section \<open>Output\<close>

text \<open>
  What the program writes to \<open>stdout\<close> is the list of its calls of \<open>fprintf\<close>, \<open>fputs\<close>
  and \<open>fputc\<close>, each with its format string and its arguments. The decimal rendering of a
  floating-point argument is not modelled. An argument is named after the expression the
  source passes.
\<close>

datatype arg =
    ArgDouble "64 word"
  | ArgMagnitude "16 word"
  | ArgName "byte list"
  | ArgType "byte list"
  | ArgChar byte
  | ArgString string
  | ArgInt "32 word"
  | ArgUnsigned nat

datatype event = Fprintf string "arg list" | Fputs string | Fputc char

definition TAB :: string where "TAB = [CHR 0x09]"

section \<open>sanitizeForC\<close>

text \<open>
  No call of \<open>setlocale\<close>: the classification is that of the "C" locale, on ASCII letters
  and digits. A character outside ASCII is no letter and no digit, and \<open>tolower\<close> leaves
  it as it is. (Where \<open>char\<close> is signed, the source passes a negative \<open>int\<close> to the
  functions of \<open><cctype>\<close> for such a character, which C leaves undefined; the model
  takes what the C libraries in use return.)
\<close>

definition isupper_c :: "char \<Rightarrow> bool" where
  "isupper_c c = (65 \<le> (of_char c :: nat) \<and> (of_char c :: nat) \<le> 90)"

definition islower_c :: "char \<Rightarrow> bool" where
  "islower_c c = (97 \<le> (of_char c :: nat) \<and> (of_char c :: nat) \<le> 122)"

definition isdigit_c :: "char \<Rightarrow> bool" where
  "isdigit_c c = (48 \<le> (of_char c :: nat) \<and> (of_char c :: nat) \<le> 57)"

definition isalpha_c :: "char \<Rightarrow> bool" where
  "isalpha_c c = (isupper_c c \<or> islower_c c)"

definition isalnum_c :: "char \<Rightarrow> bool" where
  "isalnum_c c = (isalpha_c c \<or> isdigit_c c)"

definition tolower_c :: "char \<Rightarrow> char" where
  "tolower_c c = (if isupper_c c then char_of (of_char c + (32 :: nat)) else c)"

text \<open>
  The loop of \<open>sanitizeForC\<close> from index \<open>i\<close> on; \<open>first\<close> says whether \<open>i = 0\<close>. The
  argument is a C string: the loop stops at its first NUL.
\<close>

fun sanitizeLoop :: "bool \<Rightarrow> string \<Rightarrow> string" where
  "sanitizeLoop first [] = []"
| "sanitizeLoop first (ch # cs) =
     (if ch = CHR 0x00 then []
      else
        let c = tolower_c ch in
        (if first
         then (if isalpha_c c then c else CHR ''x'')
         else (if isalnum_c c then c else CHR ''_'')) # sanitizeLoop False cs)"

definition sanitizeForC :: "string \<Rightarrow> string" where
  "sanitizeForC cs = sanitizeLoop True cs"

section \<open>printCHeader, printCFooter and print\<close>

definition printCHeader ::
  "string \<Rightarrow> nat \<Rightarrow> Epoch \<Rightarrow> bool \<Rightarrow> bool \<Rightarrow> bool \<Rightarrow> event list" where
  \<open>printCHeader inputfile nstars epch usefloat usename usetype =
     (let var = sanitizeForC inputfile;
          epochstr = (if epch = J2000 then ''J2000'' else ''B1950'')
      in
      [Fprintf
         (''/*\<newline>'' @
          '' * Auto-generated from catalog %s by the sidus program\<newline>'' @
          '' *\<newline>'' @
          '' * Do this:\<newline>'' @
          '' *   #define SIDUS_IMPLEMENTATION\<newline>'' @
          '' * before you include this file in *one* C or C++ file to create the implementation\<newline>'' @
          '' *\<newline>'' @
          '' */\<newline>\<newline>'')
         [ArgString inputfile],
       Fprintf (''#ifndef %s_h\<newline>'' @ ''#define %s_h\<newline>\<newline>'')
         [ArgString var, ArgString var],
       Fputs (''#ifdef __cplusplus\<newline>'' @ ''extern "C" {\<newline>'' @ ''#endif\<newline>\<newline>''),
       Fputs ''struct Star {\<newline>'',
       (if usefloat
        then Fprintf
          (TAB @ ''float rightAscension;'' @ TAB @ ''/* radians, %s */\<newline>'' @
           TAB @ ''float declination;'' @ TAB @ ''/* radians, %s */\<newline>'' @
           TAB @ ''float magnitude;\<newline>'')
          [ArgString epochstr, ArgString epochstr]
        else Fprintf
          (TAB @ ''double rightAscension;'' @ TAB @ ''/* radians, %s */\<newline>'' @
           TAB @ ''double declination;'' @ TAB @ ''/* radians, %s */\<newline>'' @
           TAB @ ''double magnitude;\<newline>'')
          [ArgString epochstr, ArgString epochstr])] @
      (if usename then [Fputs (TAB @ ''const char *name;\<newline>'')] else []) @
      (if usetype then [Fputs (TAB @ ''const char *type;\<newline>'')] else []) @
      [Fprintf
         (''};\<newline>\<newline>'' @
          ''enum { %s_num_stars = %u };\<newline>\<newline>'' @
          ''#ifndef SIDUS_IMPLEMENTATION\<newline>'' @
          ''extern const struct Star * %s_stars;\<newline>'' @
          ''#else\<newline>'' @
          ''const struct Star %s_stars[%u] = {'')
         [ArgString var, ArgUnsigned nstars, ArgString var, ArgString var,
          ArgUnsigned nstars]])\<close>

definition printCFooter :: "event list" where
  \<open>printCFooter =
     [Fputs (''\<newline>};\<newline>\<newline>'' @ ''#endif\<newline>\<newline>'' @ ''#ifdef __cplusplus\<newline>'' @
             ''}\<newline>'' @ ''#endif\<newline>\<newline>'' @ ''#endif\<newline>'')]\<close>

definition print ::
  "Star \<Rightarrow> Header \<Rightarrow> nat \<Rightarrow> bool \<Rightarrow> bool \<Rightarrow> bool \<Rightarrow> bool \<Rightarrow> event list" where
  \<open>print star header idx cformat usefloat usename usetype =
     (if cformat then
        (if idx \<noteq> 0 then [Fputs '', ''] else []) @
        [if usefloat
         then Fprintf (''\<newline>'' @ TAB @ ''{ % .9f, % .9f, % .9f'')
           [ArgDouble (rightAscension star), ArgDouble (declination star),
            ArgMagnitude (magnitude star)]
         else Fprintf (''\<newline>'' @ TAB @ ''{ % .17lf, % .17lf, % .17lf'')
           [ArgDouble (rightAscension star), ArgDouble (declination star),
            ArgMagnitude (magnitude star)]] @
        (if usename then [Fprintf '', "%s"'' [ArgName (name star)]] else []) @
        (if usetype then [Fprintf '', "%s"'' [ArgType (spectralType star)]] else []) @
        [Fputs '' }'']
      else
        (if usename then [Fprintf ''%s,'' [ArgName (name star)]] else []) @
        [if usefloat
         then Fprintf ''%.9f,%.9f,%.9f''
           [ArgDouble (rightAscension star), ArgDouble (declination star),
            ArgMagnitude (magnitude star)]
         else Fprintf ''%.17lf,%.17lf,%.17lf''
           [ArgDouble (rightAscension star), ArgDouble (declination star),
            ArgMagnitude (magnitude star)]] @
        (if usetype
         then [Fprintf '',%c%c'' [ArgChar (spectralType star ! 0), ArgChar (spectralType star ! 1)]]
         else []) @
        [Fputc CHR ''\<newline>''])\<close>

section \<open>main\<close>

text \<open>
  The options that the argument loop of \<open>main\<close> resolves (lines 565 to 575); the parsing
  of \<open>argv\<close> itself and the reading of the file into memory are not modelled.
  \<open>opt_filterMagnitude\<close> is the bit pattern of the double \<open>filterMagnitude\<close>.
\<close>

datatype Sort = NO | MAG | RA

record Options =
  opt_apparentMagnitude :: "32 word"
  opt_filterMagnitude :: "64 word"
  opt_epoch :: Epoch
  opt_cformat :: bool
  opt_endian :: Endian
  opt_usefloat :: bool
  opt_onlymeta :: bool
  opt_sort :: Sort
  opt_usename :: bool
  opt_usetype :: bool
  opt_inputfile :: string

text \<open>\<open>std::min(a, b)\<close> on \<open>int\<close>: \<open>b\<close> if \<open>b < a\<close>, else \<open>a\<close>.\<close>

definition std_min :: "32 word \<Rightarrow> 32 word \<Rightarrow> 32 word" where
  "std_min a b = (if sint b < sint a then b else a)"

text \<open>
  Lines 703 to 740 of \<open>main\<close>: the checks on the file size and on the header, up to the
  header and the \<open>usename\<close> flag that the rest of the run uses. \<open>filesize\<close> is the length
  of the buffer, a 64-bit \<open>size_t\<close>; the \<open>int\<close> on the right of \<open>filesize < (28 +
  starDataSize)\<close> is converted to \<open>size_t\<close> by sign extension. \<open>header0\<close> is the
  uninitialised local \<open>header\<close>; the option \<open>opt_apparentMagnitude\<close> is not read.
\<close>

definition mainHeader :: "Header \<Rightarrow> Options \<Rightarrow> buffer \<Rightarrow> (error + Header \<times> bool) option" where
  "mainHeader header0 opts data =
     (let filesize = length data in
      if filesize = 0 then Some (Inl EmptyFile)
      else if filesize < 28 then Some (Inl NoHeader)
      else do {
        r \<leftarrow> parseHeader header0 data (opt_epoch opts) (opt_endian opts);
        case r of
          Inl e \<Rightarrow> Some (Inl e)
        | Inr header \<Rightarrow>
            let starDataSize = numStars header * numBytesPerStar header in
            if filesize < unat (scast (28 + starDataSize) :: 64 word) then Some (Inl FileTooShort)
            else if sint (numMagnitudes header) < 1 then Some (Inl TooFewMagnitudes)
            else
              let header' = header\<lparr>apparentMagnitude :=
                    std_min (numMagnitudes header - 1) (numMagnitudes header)\<rparr>;
                  usename = (if starNameLength header' = 0 then False else opt_usename opts)
              in Some (Inr (header', usename))
      })"

text \<open>Lines 742 to 769: the summary of the header, one \<open>fprintf\<close>.\<close>

definition printMeta :: "Header \<Rightarrow> event" where
  "printMeta header =
     Fprintf
       (''Catalog information:\<newline>'' @
        '' Number of stars: %d\<newline>'' @
        '' Id: %s\<newline>'' @
        '' Names: %s\<newline>'' @
        '' Proper motion: %s\<newline>'' @
        '' Number of magnitudes: %d\<newline>'' @
        '' Epoch: %s\<newline>'' @
        '' Bytes per star: %d\<newline>'')
       [ArgInt (numStars header),
        ArgString
          (if starId header = NO_STAR_ID then ''No''
           else if starId header = CATALOG_STAR_ID then ''Catalog star id''
           else if starId header = GSC_STAR_ID then ''GSC star id''
           else if starId header = TYCHO_STAR_ID then ''Tycho star id''
           else if starId header = INTEGER_STAR_ID then ''Integer star id''
           else ''UNKNOWN''),
        ArgString (if 0 < sint (starNameLength header) then ''Yes'' else ''No''),
        ArgString
          (if properMotion header = NO_PROPER_MOTION then ''No''
           else if properMotion header = PROPER_MOTION then ''Yes''
           else if properMotion header = RADIAL_VELOCITY then ''Radial velocity''
           else ''UNKNOWN''),
        ArgInt (numMagnitudes header),
        ArgString (if epoch header = J2000 then ''J2000'' else ''B1950''),
        ArgInt (numBytesPerStar header)]"

text \<open>The key of the \<open>switch (sort)\<close> in the loop, for the record of index \<open>i\<close>.\<close>

definition sortKey :: "Sort \<Rightarrow> int \<Rightarrow> Star \<Rightarrow> key" where
  "sortKey srt i star =
     (case srt of
        RA \<Rightarrow> KeyRA (rightAscension star)
      | MAG \<Rightarrow> KeyMag (magnitude star)
      | NO \<Rightarrow> KeyIndex i)"

text \<open>
  The two filters of the loop. \<open>exceeds mag f\<close> stands for the floating-point comparison
  \<open>star.magnitude > filterMagnitude\<close>, of the float \<open>(float)(mag)/100.0f\<close> with the double
  of bit pattern \<open>f\<close>: floating-point arithmetic is not modelled, the comparison is a
  parameter of the run. \<open>star.magnitude == 0.0\<close> holds exactly when \<open>mag\<close> is 0.
\<close>

definition invalidEntry :: "Star \<Rightarrow> bool" where
  "invalidEntry star =
     (magnitude star = 0 \<and> double_is_zero (rightAscension star) \<and>
      double_is_zero (declination star))"

text \<open>
  Lines 771 to 799: the loop over the records, \<open>n\<close> iterations left, at record index \<open>i\<close>
  and at the \<open>int\<close> offset \<open>cursor\<close>. \<open>parseStar\<close> always returns 0, the \<open>continue\<close> on
  its failure is dead code; where it is undefined, so is the run.
\<close>

fun starLoop ::
  "(16 word \<Rightarrow> 64 word \<Rightarrow> bool) \<Rightarrow> 64 word \<Rightarrow> Header \<Rightarrow> buffer \<Rightarrow> Sort
     \<Rightarrow> nat \<Rightarrow> int \<Rightarrow> 32 word \<Rightarrow> multimap \<Rightarrow> multimap option" where
  "starLoop exceeds flt header data srt 0 i cursor m = Some m"
| "starLoop exceeds flt header data srt (Suc n) i cursor m =
     (case parseStar header data (sint cursor) of
        None \<Rightarrow> None
      | Some star \<Rightarrow>
          if exceeds (magnitude star) flt
          then starLoop exceeds flt header data srt n (i + 1) (cursor + numBytesPerStar header) m
          else if invalidEntry star
          then starLoop exceeds flt header data srt n (i + 1) (cursor + numBytesPerStar header) m
          else starLoop exceeds flt header data srt n (i + 1) (cursor + numBytesPerStar header)
                 (mm_insert (sortKey srt i star) star m))"

text \<open>
  Lines 801 to 812: the output of the stars of the multimap in its order, \<open>idx\<close>
  counting from 0, between the header and the footer of the C format.
\<close>

definition printStars :: "Header \<Rightarrow> Options \<Rightarrow> bool \<Rightarrow> multimap \<Rightarrow> event list" where
  "printStars header opts usename m =
     (if opt_cformat opts
      then printCHeader (opt_inputfile opts) (length (mm_list m)) (epoch header)
             (opt_usefloat opts) usename (opt_usetype opts)
      else []) @
     concat (map (\<lambda>(idx, (k, star)).
               print star header idx (opt_cformat opts) (opt_usefloat opts) usename
                 (opt_usetype opts))
             (enumerate 0 (mm_list m))) @
     (if opt_cformat opts then printCFooter else [])"

text \<open>
  \<open>main\<close> from line 703 on. \<open>Inl e\<close> is the return of \<open>-1\<close> after the diagnostic \<open>e\<close>,
  \<open>Inr evs\<close> the return of 0 after the output \<open>evs\<close>, \<open>None\<close> undefined behaviour.
\<close>

definition main ::
  "(16 word \<Rightarrow> 64 word \<Rightarrow> bool) \<Rightarrow> Header \<Rightarrow> Options \<Rightarrow> buffer \<Rightarrow> (error + event list) option"
  where
  "main exceeds header0 opts data = do {
     r \<leftarrow> mainHeader header0 opts data;
     case r of
       Inl e \<Rightarrow> Some (Inl e)
     | Inr (header, usename) \<Rightarrow>
         if opt_onlymeta opts then Some (Inr [printMeta header])
         else do {
           m \<leftarrow> starLoop exceeds (opt_filterMagnitude opts) header data (opt_sort opts)
                  (nat (sint (numStars header))) 0 28 Leaf;
           Some (Inr (printStars header opts usename m))
         }
   }"

section \<open>Definitions used to state the properties\<close>

text \<open>
  The four bytes of a 32-bit integer in a byte order: what "the field holds \<open>v\<close> encoded
  in that byte order" means. The program has no encoder; \<open>parse_int32\<close> inverts this one
  (lemma \<open>parse_encode_int32\<close>).
\<close>

definition encode_int32 :: "32 word \<Rightarrow> bool \<Rightarrow> byte list" where
  "encode_int32 v le =
     (if le
      then [ucast v, ucast (drop_bit 8 v), ucast (drop_bit 16 v), ucast (drop_bit 24 v)]
      else [ucast (drop_bit 24 v), ucast (drop_bit 16 v), ucast (drop_bit 8 v), ucast v])"

subsection \<open>Example inputs\<close>

text \<open>Some contents of the local \<open>header\<close> of \<open>main\<close> before \<open>parseHeader\<close> fills it.\<close>

definition header0_example :: Header where
  "header0_example =
     \<lparr>numStars = 0, starId = 0, starNameLength = 0, properMotion = 0, numMagnitudes = 0,
      apparentMagnitude = 0, numBytesPerStar = 0, epoch = Epoch_AUTO, littleEndian = False\<rparr>"

text \<open>
  The options as \<open>main\<close> initialises them, for an input file named \<open>catalog\<close>. The filter
  threshold is \<open>DBL_MAX\<close>, which no magnitude exceeds: \<open>never_exceeds\<close> is the comparison
  \<open>star.magnitude > filterMagnitude\<close> for it.
\<close>

definition default_options :: Options where
  "default_options =
     \<lparr>opt_apparentMagnitude = 0, opt_filterMagnitude = 0x7FEFFFFFFFFFFFFF,
      opt_epoch = Epoch_AUTO, opt_cformat = False, opt_endian = Endian_AUTO,
      opt_usefloat = False, opt_onlymeta = False, opt_sort = NO, opt_usename = False,
      opt_usetype = False, opt_inputfile = ''catalog''\<rparr>"

definition never_exceeds :: "16 word \<Rightarrow> 64 word \<Rightarrow> bool" where
  "never_exceeds mag f = False"

text \<open>
  The header of the scenario of the specification, little-endian: star count -2, id-spec
  -3 (names of 3 characters), no motion, one magnitude, 23 bytes per record.
\<close>

definition scenario_header :: buffer where
  "scenario_header =
     [0, 0, 0, 0,  0, 0, 0, 0,  0xFE, 0xFF, 0xFF, 0xFF,  0xFD, 0xFF, 0xFF, 0xFF,
      0, 0, 0, 0,  1, 0, 0, 0,  23, 0, 0, 0]"

text \<open>
  A big-endian header: star count 2, id-spec 0, no motion, magnitude count -1 (one
  magnitude, J2000), 20 bytes per record.
\<close>

definition big_endian_header :: buffer where
  "big_endian_header =
     [0, 0, 0, 0,  0, 0, 0, 0,  0, 0, 0, 2,  0, 0, 0, 0,
      0, 0, 0, 0,  0xFF, 0xFF, 0xFF, 0xFF,  0, 0, 0, 20]"

text \<open>Headers whose magnitude count is 3 in big-endian, and fits neither byte order.\<close>

definition big_endian_three_header :: buffer where
  "big_endian_three_header =
     [0, 0, 0, 0,  0, 0, 0, 0,  0, 0, 0, 2,  0, 0, 0, 0,
      0, 0, 0, 0,  0, 0, 0, 3,  0, 0, 0, 22]"

definition unfit_header :: buffer where
  "unfit_header =
     [0, 0, 0, 0,  0, 0, 0, 0,  2, 0, 0, 0,  0, 0, 0, 0,
      0, 0, 0, 0,  0, 1, 1, 0,  20, 0, 0, 0]"

text \<open>
  A little-endian catalog of one record of 20 bytes, with id-spec 7 and motion flag 5:
  right ascension 1.0, declination 2.0, spectral type \<open>A0\<close>, magnitude 4.50.
\<close>

definition unknown_kinds_catalog :: buffer where
  "unknown_kinds_catalog =
     [0, 0, 0, 0,  0, 0, 0, 0,  1, 0, 0, 0,  7, 0, 0, 0,
      5, 0, 0, 0,  1, 0, 0, 0,  20, 0, 0, 0,
      0, 0, 0, 0, 0, 0, 0xF0, 0x3F,  0, 0, 0, 0, 0, 0, 0, 0x40,  0x41, 0x30,  0xC2, 0x01]"

text \<open>
  A file of 28 bytes, little-endian: 65536 stars of 65536 bytes each, one magnitude.
\<close>

definition overflow_header :: buffer where
  "overflow_header =
     [0, 0, 0, 0,  0, 0, 0, 0,  0, 0, 1, 0,  0, 0, 0, 0,
      0, 0, 0, 0,  1, 0, 0, 0,  0, 0, 1, 0]"

text \<open>
  A little-endian catalog of one record with two magnitudes, 1.00 and then 4.50.
\<close>

definition two_magnitudes_catalog :: buffer where
  "two_magnitudes_catalog =
     [0, 0, 0, 0,  0, 0, 0, 0,  1, 0, 0, 0,  0, 0, 0, 0,
      0, 0, 0, 0,  2, 0, 0, 0,  22, 0, 0, 0,
      0, 0, 0, 0, 0, 0, 0xF0, 0x3F,  0, 0, 0, 0, 0, 0, 0, 0x40,  0x41, 0x30,
      0x64, 0x00,  0xC2, 0x01]"

text \<open>
  A catalog with names of 3 characters, one record, whose name bytes are \<open>A\<close>, NUL, \<open>C\<close>;
  and the header that \<open>main\<close> decodes from it.
\<close>

definition nul_name_catalog :: buffer where
  "nul_name_catalog =
     [0, 0, 0, 0,  0, 0, 0, 0,  0xFF, 0xFF, 0xFF, 0xFF,  0xFD, 0xFF, 0xFF, 0xFF,
      0, 0, 0, 0,  1, 0, 0, 0,  23, 0, 0, 0,
      0, 0, 0, 0, 0, 0, 0xF0, 0x3F,  0, 0, 0, 0, 0, 0, 0, 0x40,  0x41, 0x30,  0xC2, 0x01,
      0x41, 0x00, 0x43]"

definition nul_name_header :: Header where
  "nul_name_header =
     \<lparr>numStars = 1, starId = 0, starNameLength = 3, properMotion = 0, numMagnitudes = 1,
      apparentMagnitude = 0, numBytesPerStar = 23, epoch = J2000, littleEndian = True\<rparr>"

text \<open>
  The scenario of the specification: the header above and two records named \<open>ABC\<close>,
  of magnitude 4.50; and the header that \<open>main\<close> decodes from it.
\<close>

definition scenario_record :: buffer where
  "scenario_record =
     [0, 0, 0, 0, 0, 0, 0xF0, 0x3F,  0, 0, 0, 0, 0, 0, 0, 0x40,  0x41, 0x30,  0xC2, 0x01,
      0x41, 0x42, 0x43]"

definition scenario_catalog :: buffer where
  "scenario_catalog = scenario_header @ scenario_record @ scenario_record"

definition scenario_decoded :: Header where
  "scenario_decoded =
     \<lparr>numStars = 2, starId = 0, starNameLength = 3, properMotion = 0, numMagnitudes = 1,
      apparentMagnitude = 0, numBytesPerStar = 23, epoch = J2000, littleEndian = True\<rparr>"

text \<open>The headers that \<open>main\<close> decodes from three of the catalogs above.\<close>

definition unknown_kinds_decoded :: Header where
  "unknown_kinds_decoded =
     \<lparr>numStars = 1, starId = 7, starNameLength = 0, properMotion = 5, numMagnitudes = 1,
      apparentMagnitude = 0, numBytesPerStar = 20, epoch = B1950, littleEndian = True\<rparr>"

definition two_magnitudes_decoded :: Header where
  "two_magnitudes_decoded =
     \<lparr>numStars = 1, starId = 0, starNameLength = 0, properMotion = 0, numMagnitudes = 2,
      apparentMagnitude = 1, numBytesPerStar = 22, epoch = B1950, littleEndian = True\<rparr>"

definition overflow_decoded :: Header where
  "overflow_decoded =
     \<lparr>numStars = 65536, starId = 0, starNameLength = 0, properMotion = 0, numMagnitudes = 1,
      apparentMagnitude = 0, numBytesPerStar = 65536, epoch = B1950, littleEndian = True\<rparr>"

text \<open>
  The offset of the name in a record, from the widths of the fields before it: the
  identifier (4 bytes for the four id kinds), right ascension and declination (8 each),
  the spectral type (2), the magnitudes (2 each), the motion (8 for proper motion or
  radial velocity).
\<close>

definition nameOffset :: "Header \<Rightarrow> int" where
  "nameOffset header =
     (if starId header = CATALOG_STAR_ID \<or> starId header = GSC_STAR_ID \<or>
         starId header = TYCHO_STAR_ID \<or> starId header = INTEGER_STAR_ID then 4 else 0) +
     8 + 8 + 2 + 2 * int (nat (sint (numMagnitudes header))) +
     (if properMotion header = PROPER_MOTION \<or> properMotion header = RADIAL_VELOCITY
      then 8 else 0)"

text \<open>
  A valid identifier, as the property of \<open>sanitizeForC\<close> is worded: it starts with a
  letter, and every later character is a letter, a digit or an underscore.
\<close>

definition valid_identifier :: "string \<Rightarrow> bool" where
  "valid_identifier s =
     (case s of
        [] \<Rightarrow> False
      | c # cs \<Rightarrow> isalpha_c c \<and> (\<forall>d \<in> set cs. isalnum_c d \<or> d = CHR ''_''))"

text \<open>
  A little-endian catalog of two records of 20 bytes without id, motion or name: the
  first is all zero, the second has right ascension 1.0, declination 2.0 and magnitude
  4.50; the header that \<open>main\<close> decodes from it, and the star of its second record.
\<close>

definition zero_padded_catalog :: buffer where
  "zero_padded_catalog =
     [0, 0, 0, 0,  0, 0, 0, 0,  2, 0, 0, 0,  0, 0, 0, 0,
      0, 0, 0, 0,  1, 0, 0, 0,  20, 0, 0, 0,
      0, 0, 0, 0, 0, 0, 0, 0,  0, 0, 0, 0, 0, 0, 0, 0,  0, 0,  0, 0,
      0, 0, 0, 0, 0, 0, 0xF0, 0x3F,  0, 0, 0, 0, 0, 0, 0, 0x40,  0x41, 0x30,  0xC2, 0x01]"

definition zero_padded_decoded :: Header where
  "zero_padded_decoded =
     \<lparr>numStars = 2, starId = 0, starNameLength = 0, properMotion = 0, numMagnitudes = 1,
      apparentMagnitude = 0, numBytesPerStar = 20, epoch = B1950, littleEndian = True\<rparr>"

definition example_star :: Star where
  "example_star =
     \<lparr>name = [], rightAscension = 0x3FF0000000000000, declination = 0x4000000000000000,
      starIdValue = IdZero, magnitude = 450, pmRightAscension = 0, pmDeclination = 0,
      radialVelocity = 0, spectralType = [0x41, 0x30]\<rparr>"

text \<open>
  An output event that shows a name: an argument \<open>star.name\<close> of a \<open>fprintf\<close>, or the
  member \<open>name\<close> of the struct declaration.
\<close>

definition is_ArgName :: "arg \<Rightarrow> bool" where
  "is_ArgName a = (case a of ArgName n \<Rightarrow> True | _ \<Rightarrow> False)"

definition name_output :: "event \<Rightarrow> bool" where
  "name_output ev =
     (case ev of
        Fprintf fmt args \<Rightarrow> list_ex is_ArgName args
      | Fputs str \<Rightarrow> str = TAB @ ''const char *name;\<newline>''
      | Fputc c \<Rightarrow> False)"

text \<open>
  The records of the catalog in record order, each with its index: \<open>n\<close> records from
  index \<open>i\<close> at offset \<open>cursor\<close>, as \<open>parseStar\<close> decodes them; and the stars among them
  that pass the two filters of the loop, in record order.
\<close>

fun decodeRecords ::
  "Header \<Rightarrow> buffer \<Rightarrow> nat \<Rightarrow> int \<Rightarrow> 32 word \<Rightarrow> (int \<times> Star) list option" where
  "decodeRecords header data 0 i cursor = Some []"
| "decodeRecords header data (Suc n) i cursor =
     (case parseStar header data (sint cursor) of
        None \<Rightarrow> None
      | Some star \<Rightarrow>
          map_option ((#) (i, star))
            (decodeRecords header data n (i + 1) (cursor + numBytesPerStar header)))"

definition survives :: "(16 word \<Rightarrow> 64 word \<Rightarrow> bool) \<Rightarrow> 64 word \<Rightarrow> Star \<Rightarrow> bool" where
  "survives exceeds flt star =
     (\<not> exceeds (magnitude star) flt \<and>
      \<not> (magnitude star = 0 \<and> double_is_zero (rightAscension star) \<and>
         double_is_zero (declination star)))"



text \<open>
  The place that the standard gives a new element among the elements in iteration order,
  the upper bound of its key: before the first element with a greater key, behind all
  elements whose key is not greater (C++11, [associative.reqmts]).
\<close>

fun insert_upper_bound ::
  "key \<Rightarrow> Star \<Rightarrow> (key \<times> Star) list \<Rightarrow> (key \<times> Star) list" where
  "insert_upper_bound k v [] = [(k, v)]"
| "insert_upper_bound k v ((k', v') # m) =
     (if key_less k k' then (k, v) # (k', v') # m else (k', v') # insert_upper_bound k v m)"

text \<open>
  For the proofs about the multimap: a key with its star; the insertion of a list of
  indexed stars in turn, into the tree and at the upper bounds of a list; the tree with
  the new red node at the place of the descent, before the loop that rebalances it; the
  integer that orders a key among the keys of its kind; and the keys of the ordering
  \<open>srt\<close> that \<open><\<close> orders.
\<close>

definition keyed :: "Sort \<Rightarrow> int \<times> Star \<Rightarrow> key \<times> Star" where
  "keyed srt r = (sortKey srt (fst r) (snd r), snd r)"

definition mm_insert_all :: "Sort \<Rightarrow> multimap \<Rightarrow> (int \<times> Star) list \<Rightarrow> multimap" where
  "mm_insert_all srt m rs =
     foldl (\<lambda>m r. mm_insert (fst (keyed srt r)) (snd (keyed srt r)) m) m rs"

definition insert_all ::
  "Sort \<Rightarrow> (key \<times> Star) list \<Rightarrow> (int \<times> Star) list \<Rightarrow> (key \<times> Star) list" where
  "insert_all srt m rs =
     foldl (\<lambda>m r. insert_upper_bound (fst (keyed srt r)) (snd (keyed srt r)) m) m rs"

fun bst_insert :: "key \<Rightarrow> Star \<Rightarrow> rb_tree \<Rightarrow> rb_tree" where
  "bst_insert k v Leaf = Node S_red Leaf k v Leaf"
| "bst_insert k v (Node c l k' v' r) =
     (if key_less k k' then Node c (bst_insert k v l) k' v' r
      else Node c l k' v' (bst_insert k v r))"








text \<open>The width of the identifier field of a record: 4 bytes for the four id kinds.\<close>

definition idWidth :: "Header \<Rightarrow> int" where
  "idWidth header =
     (if starId header = CATALOG_STAR_ID \<or> starId header = GSC_STAR_ID \<or>
         starId header = TYCHO_STAR_ID \<or> starId header = INTEGER_STAR_ID then 4 else 0)"

text \<open>
  A little-endian file of 48 bytes: a header that declares 2 stars with the bytes
  \<open>FF FF FF FF\<close> as record stride (-1 as an \<open>int\<close>, 4294967295 unsigned), and the 20
  bytes of one record.
\<close>

definition negative_stride_catalog :: buffer where
  "negative_stride_catalog =
     [0, 0, 0, 0,  0, 0, 0, 0,  2, 0, 0, 0,  0, 0, 0, 0,
      0, 0, 0, 0,  1, 0, 0, 0,  0xFF, 0xFF, 0xFF, 0xFF,
      0, 0, 0, 0, 0, 0, 0xF0, 0x3F,  0, 0, 0, 0, 0, 0, 0, 0x40,  0x41, 0x30,  0xC2, 0x01]"




section \<open>Lemmas on reading\<close>

lemma byteAt_in_range:
  "0 \<le> i \<Longrightarrow> i < int (length buf) \<Longrightarrow> byteAt buf i = Some (buf ! nat i)"
  by (simp add: byteAt_def)

lemma parse_int32_in_range:
  "0 \<le> p \<Longrightarrow> p + 4 \<le> int (length buf) \<Longrightarrow>
   parse_int32 buf p le =
     Some (compose32 (buf ! nat p) (buf ! nat (p + 1)) (buf ! nat (p + 2)) (buf ! nat (p + 3)) le)"
  by (simp add: parse_int32_def byteAt_def)

lemma four_bytes_at:
  assumes "take 4 (drop n buf) = [a, b, c, d]"
  shows "n + 4 \<le> length buf \<and> buf ! n = a \<and> buf ! (n + 1) = b \<and>
         buf ! (n + 2) = c \<and> buf ! (n + 3) = d"
proof -
  have "length (take 4 (drop n buf)) = 4" using assms by simp
  then have len: "n + 4 \<le> length buf" by simp
  have "take 4 (drop n buf) ! i = buf ! (n + i)" if "i < 4" for i
    using that len by simp
  from this [of 0] this [of 1] this [of 2] this [of 3] assms len show ?thesis by simp
qed

lemma parse_int32_bytes:
  assumes "take 4 (drop n buf) = [a, b, c, d]"
  shows "parse_int32 buf (int n) le = Some (compose32 a b c d le)"
  using four_bytes_at [OF assms] by (simp add: parse_int32_in_range nat_add_distrib)

lemma compose32_encode:
  "compose32 (encode_int32 v le ! 0) (encode_int32 v le ! 1) (encode_int32 v le ! 2)
     (encode_int32 v le ! 3) le = v"
proof (rule bit_word_eqI)
  fix n assume n: "n < LENGTH(32)"
  consider "n < 8" | "8 \<le> n" "n < 16" | "16 \<le> n" "n < 24" | "24 \<le> n" "n < 32"
    using n by fastforce
  then show "bit (compose32 (encode_int32 v le ! 0) (encode_int32 v le ! 1)
      (encode_int32 v le ! 2) (encode_int32 v le ! 3) le) n = bit v n"
    by cases (auto simp add: compose32_def encode_int32_def bit_simps)
qed

lemma parse_int32_encoded:
  assumes "take 4 (drop n buf) = encode_int32 v le"
  shows "parse_int32 buf (int n) b =
      Some (compose32 (encode_int32 v le ! 0) (encode_int32 v le ! 1) (encode_int32 v le ! 2)
              (encode_int32 v le ! 3) b)"
  using assms
    parse_int32_bytes [of n buf "encode_int32 v le ! 0" "encode_int32 v le ! 1"
      "encode_int32 v le ! 2" "encode_int32 v le ! 3" b]
  by (simp add: encode_int32_def split: if_splits)

lemma parse_encode_int32:
  "take 4 (drop n buf) = encode_int32 v le \<Longrightarrow> parse_int32 buf (int n) le = Some v"
  using parse_int32_encoded [of n buf v le le] compose32_encode [of v le] by simp

section \<open>Lemmas on parseHeader\<close>

lemma sint_abs32: "sint w \<noteq> - 2147483648 \<Longrightarrow> sint (abs32 w) = \<bar>sint w\<bar>"
proof -
  assume a: "sint w \<noteq> - 2147483648"
  have "- 2147483648 \<le> sint w" "sint w < 2147483648"
    using sint_ge [of w] sint_lt [of w] by simp_all
  with a have "sint (- w) = - sint w"
    by (simp add: sint_word_ariths signed_take_bit_int_eq_self)
  then show ?thesis by (simp add: abs32_def)
qed

lemma neg_numerals32:
  "(- 1 :: 32 word) = 0xFFFFFFFF" "(- 2 :: 32 word) = 0xFFFFFFFE" "(- 3 :: 32 word) = 0xFFFFFFFD"
  "(- 4 :: 32 word) = 0xFFFFFFFC" "(- 5 :: 32 word) = 0xFFFFFFFB" "(- 6 :: 32 word) = 0xFFFFFFFA"
  "(- 7 :: 32 word) = 0xFFFFFFF9" "(- 8 :: 32 word) = 0xFFFFFFF8" "(- 9 :: 32 word) = 0xFFFFFFF7"
  "(- 10 :: 32 word) = 0xFFFFFFF6"
  by simp_all

lemma small_word_cases:
  assumes "\<bar>sint (v :: 32 word)\<bar> \<le> 10"
  shows "v \<in> {0, 1, 2, 3, 4, 5, 6, 7, 8, 9, 10, 0xFFFFFFFF, 0xFFFFFFFE, 0xFFFFFFFD,
     0xFFFFFFFC, 0xFFFFFFFB, 0xFFFFFFFA, 0xFFFFFFF9, 0xFFFFFFF8, 0xFFFFFFF7, 0xFFFFFFF6}"
proof -
  have "sint v \<in> {0, 1, 2, 3, 4, 5, 6, 7, 8, 9, 10, -1, -2, -3, -4, -5, -6, -7, -8, -9, -10}"
    using assms by simp arith
  then have "word_of_int (sint v) \<in>
      ((word_of_int ` {0, 1, 2, 3, 4, 5, 6, 7, 8, 9, 10, -1, -2, -3, -4, -5, -6, -7, -8, -9, -10})
        :: 32 word set)"
    by (rule imageI)
  then show ?thesis by (simp add: neg_numerals32)
qed

lemma detect_small_le:
  assumes "\<bar>sint v\<bar> \<le> 10" and "take 4 (drop 20 data) = encode_int32 v True"
  shows "detectEndian data Endian_AUTO = Some (Inr (LITTLE, v))"
  using small_word_cases [OF assms(1)]
  unfolding detectEndian_def parse_int32_encoded [OF assms(2), simplified]
  by (elim insertE emptyE; simp add: encode_int32_def compose32_def abs32_def)

lemma detect_small_be:
  assumes "\<bar>sint v\<bar> \<le> 10" and "take 4 (drop 20 data) = encode_int32 v False"
  shows "detectEndian data Endian_AUTO =
           Some (Inr (if v = 0 \<or> v = 0xFFFFFFFF then LITTLE else BIG, v))"
  using small_word_cases [OF assms(1)]
  unfolding detectEndian_def parse_int32_encoded [OF assms(2), simplified]
  by (elim insertE emptyE; simp add: encode_int32_def compose32_def abs32_def)

lemma detect_both_large:
  assumes "parse_int32 data 20 True = Some a" and "parse_int32 data 20 False = Some b"
    and "10 < \<bar>sint a\<bar>" and "10 < \<bar>sint b\<bar>"
    and "sint a \<noteq> - 2147483648" and "sint b \<noteq> - 2147483648"
  shows "detectEndian data Endian_AUTO = Some (Inl AmbiguousFormat)"
  using assms by (simp add: detectEndian_def sint_abs32)

lemma detectEndian_result:
  "detectEndian data endian = Some (Inr (e, nmag)) \<Longrightarrow>
   e \<noteq> Endian_AUTO \<and> parse_int32 data 20 (e = LITTLE) = Some nmag \<and>
   \<not> 10 < sint (abs32 nmag)"
  by (auto simp: detectEndian_def split: if_splits Option.bind_splits)

lemmas header_eval =
  parseHeader_def detectEndian_def fillHeader_def parse_int32_def byteAt_def compose32_def
  abs32_def NO_STAR_ID_def

section \<open>Properties of parseHeader\<close>

text \<open>
  C4. The epoch that \<open>parseHeader\<close> derives is J2000 exactly when the star count at offset
  8 or the magnitude count at offset 20, read in the byte order found, is negative, and
  B1950 otherwise. For every header of 28 bytes that passes the byte-order probe: a hint
  J2000 against a derived B1950, or B1950 against a derived J2000, makes \<open>parseHeader\<close>
  fail with \<open>EpochMismatch\<close>; in every other case it returns a header, whose epoch is
  the derived one.
\<close>

theorem C4_epoch_from_signs:
  assumes len: "28 \<le> length data"
    and probe: "detectEndian data endian = Some (Inr (e, nmag))"
    and starn: "parse_int32 data 8 (e = LITTLE) = Some starn"
  shows "parse_int32 data 20 (e = LITTLE) = Some nmag \<and>
         (epch = J2000 \<and> \<not> (sint starn < 0 \<or> sint nmag < 0) \<longrightarrow>
            parseHeader header data epch endian = Some (Inl (EpochMismatch J2000))) \<and>
         (epch = B1950 \<and> (sint starn < 0 \<or> sint nmag < 0) \<longrightarrow>
            parseHeader header data epch endian = Some (Inl (EpochMismatch B1950))) \<and>
         (\<not> (epch = J2000 \<and> \<not> (sint starn < 0 \<or> sint nmag < 0)) \<and>
          \<not> (epch = B1950 \<and> (sint starn < 0 \<or> sint nmag < 0)) \<longrightarrow>
            (\<exists>h. parseHeader header data epch endian = Some (Inr h) \<and>
                 epoch h = (if sint starn < 0 \<or> sint nmag < 0 then J2000 else B1950)))"
proof -
  from len obtain stnum mprop nbent where
    r: "parse_int32 data 12 (e = LITTLE) = Some stnum"
       "parse_int32 data 16 (e = LITTLE) = Some mprop"
       "parse_int32 data 24 (e = LITTLE) = Some nbent"
    by (simp add: parse_int32_in_range)
  show ?thesis
    using probe starn r detectEndian_result [OF probe]
    by (simp add: parseHeader_def fillHeader_def Let_def)
qed

theorem C4_epoch_from_signs_witness:
  "28 \<le> length scenario_header \<and>
   detectEndian scenario_header Endian_AUTO = Some (Inr (LITTLE, 1)) \<and>
   parse_int32 scenario_header 8 (LITTLE = LITTLE) = Some 0xFFFFFFFE \<and>
   sint (0xFFFFFFFE :: 32 word) < 0 \<and>
   parseHeader header0_example scenario_header B1950 Endian_AUTO =
     Some (Inl (EpochMismatch B1950)) \<and>
   (\<exists>h. parseHeader header0_example scenario_header J2000 Endian_AUTO = Some (Inr h) \<and>
        epoch h = J2000)"
proof -
  have a: "28 \<le> length scenario_header" by (simp add: scenario_header_def)
  have b: "detectEndian scenario_header Endian_AUTO = Some (Inr (LITTLE, 1))"
    by (simp add: header_eval scenario_header_def)
  have c: "parse_int32 scenario_header 8 (LITTLE = LITTLE) = Some 0xFFFFFFFE"
    by (simp add: header_eval scenario_header_def)
  show ?thesis
    using C4_epoch_from_signs [OF a b c, of B1950 header0_example]
      C4_epoch_from_signs [OF a b c, of J2000 header0_example] a b c
    by simp
qed

text \<open>
  C3, as stated, fails: a big-endian header whose magnitude count is -1 (one magnitude,
  J2000) has the bytes \<open>FF FF FF FF\<close> at offset 20, which read -1 in little-endian too.
  The probe tries little-endian first and adopts it; the star count 2 of the header is
  then decoded as 33554432.
\<close>

theorem C3_counterexample:
  "take 4 (drop 20 big_endian_header) = encode_int32 (- 1) False \<and>
   \<bar>sint (- 1 :: 32 word)\<bar> \<le> 10 \<and>
   detectEndian big_endian_header Endian_AUTO = Some (Inr (LITTLE, - 1)) \<and>
   parseHeader header0_example big_endian_header Epoch_AUTO Endian_AUTO =
     Some (Inr \<lparr>numStars = 33554432, starId = 0, starNameLength = 0, properMotion = 0,
       numMagnitudes = 1, apparentMagnitude = 0, numBytesPerStar = 335544320,
       epoch = J2000, littleEndian = True\<rparr>)"
  by (simp add: header_eval big_endian_header_def encode_int32_def header0_example_def
      neg_numerals32)

text \<open>
  C3, amended. With the hint \<open>Endian_AUTO\<close>, for every value \<open>v\<close> of absolute value at
  most 10: a header that holds \<open>v\<close> at offset 20 in little-endian is read as little-endian;
  one that holds \<open>v\<close> in big-endian is read as big-endian if \<open>v\<close> is neither 0 nor -1, and
  as little-endian if \<open>v\<close> is 0 or -1 (their four bytes are the same in both orders). The
  value found is \<open>v\<close> in each case. And where both readings of the field have an absolute
  value above 10, neither being the least 32-bit integer (whose \<open>std::abs\<close> overflows),
  the probe fails with \<open>AmbiguousFormat\<close>.
\<close>

theorem C3_auto_detection:
  "(\<bar>sint v\<bar> \<le> 10 \<and> take 4 (drop 20 data) = encode_int32 v True \<longrightarrow>
      detectEndian data Endian_AUTO = Some (Inr (LITTLE, v))) \<and>
   (\<bar>sint v\<bar> \<le> 10 \<and> v \<noteq> 0 \<and> v \<noteq> - 1 \<and> take 4 (drop 20 data) = encode_int32 v False \<longrightarrow>
      detectEndian data Endian_AUTO = Some (Inr (BIG, v))) \<and>
   ((v = 0 \<or> v = - 1) \<and> take 4 (drop 20 data) = encode_int32 v False \<longrightarrow>
      detectEndian data Endian_AUTO = Some (Inr (LITTLE, v))) \<and>
   (parse_int32 data 20 True = Some a \<and> parse_int32 data 20 False = Some b \<and>
    10 < \<bar>sint a\<bar> \<and> 10 < \<bar>sint b\<bar> \<and>
    sint a \<noteq> - 2147483648 \<and> sint b \<noteq> - 2147483648 \<longrightarrow>
      detectEndian data Endian_AUTO = Some (Inl AmbiguousFormat))"
proof (intro conjI impI)
  assume "\<bar>sint v\<bar> \<le> 10 \<and> take 4 (drop 20 data) = encode_int32 v True"
  then show "detectEndian data Endian_AUTO = Some (Inr (LITTLE, v))"
    by (simp add: detect_small_le)
next
  assume "\<bar>sint v\<bar> \<le> 10 \<and> v \<noteq> 0 \<and> v \<noteq> - 1 \<and> take 4 (drop 20 data) = encode_int32 v False"
  then show "detectEndian data Endian_AUTO = Some (Inr (BIG, v))"
    using detect_small_be [of v data] by (simp add: neg_numerals32)
next
  assume h: "(v = 0 \<or> v = - 1) \<and> take 4 (drop 20 data) = encode_int32 v False"
  then have "\<bar>sint v\<bar> \<le> 10" by auto
  with h show "detectEndian data Endian_AUTO = Some (Inr (LITTLE, v))"
    using detect_small_be [of v data] by (auto simp add: neg_numerals32)
next
  assume "parse_int32 data 20 True = Some a \<and> parse_int32 data 20 False = Some b \<and>
    10 < \<bar>sint a\<bar> \<and> 10 < \<bar>sint b\<bar> \<and> sint a \<noteq> - 2147483648 \<and> sint b \<noteq> - 2147483648"
  then show "detectEndian data Endian_AUTO = Some (Inl AmbiguousFormat)"
    by (simp add: detect_both_large)
qed

theorem C3_auto_detection_witness:
  "(\<bar>sint (1 :: 32 word)\<bar> \<le> 10 \<and> take 4 (drop 20 scenario_header) = encode_int32 1 True \<and>
    detectEndian scenario_header Endian_AUTO = Some (Inr (LITTLE, 1))) \<and>
   (\<bar>sint (3 :: 32 word)\<bar> \<le> 10 \<and> (3 :: 32 word) \<noteq> 0 \<and> (3 :: 32 word) \<noteq> - 1 \<and>
    take 4 (drop 20 big_endian_three_header) = encode_int32 3 False \<and>
    detectEndian big_endian_three_header Endian_AUTO = Some (Inr (BIG, 3))) \<and>
   (take 4 (drop 20 big_endian_header) = encode_int32 (- 1) False \<and>
    detectEndian big_endian_header Endian_AUTO = Some (Inr (LITTLE, - 1))) \<and>
   (parse_int32 unfit_header 20 True = Some 65792 \<and>
    parse_int32 unfit_header 20 False = Some 65792 \<and>
    10 < \<bar>sint (65792 :: 32 word)\<bar> \<and> sint (65792 :: 32 word) \<noteq> - 2147483648 \<and>
    detectEndian unfit_header Endian_AUTO = Some (Inl AmbiguousFormat))"
proof -
  have a: "\<bar>sint (1 :: 32 word)\<bar> \<le> 10 \<and>
      take 4 (drop 20 scenario_header) = encode_int32 1 True"
    by (simp add: scenario_header_def encode_int32_def)
  have b: "\<bar>sint (3 :: 32 word)\<bar> \<le> 10 \<and> (3 :: 32 word) \<noteq> 0 \<and> (3 :: 32 word) \<noteq> - 1 \<and>
      take 4 (drop 20 big_endian_three_header) = encode_int32 3 False"
    by (simp add: big_endian_three_header_def encode_int32_def)
  have c: "((- 1 :: 32 word) = 0 \<or> (- 1 :: 32 word) = - 1) \<and>
      take 4 (drop 20 big_endian_header) = encode_int32 (- 1) False"
    by (simp add: big_endian_header_def encode_int32_def neg_numerals32)
  have d: "parse_int32 unfit_header 20 True = Some 65792 \<and>
      parse_int32 unfit_header 20 False = Some 65792 \<and>
      10 < \<bar>sint (65792 :: 32 word)\<bar> \<and> 10 < \<bar>sint (65792 :: 32 word)\<bar> \<and>
      sint (65792 :: 32 word) \<noteq> - 2147483648 \<and> sint (65792 :: 32 word) \<noteq> - 2147483648"
    by (simp add: header_eval unfit_header_def)
  from a have a': "detectEndian scenario_header Endian_AUTO = Some (Inr (LITTLE, 1))"
    using C3_auto_detection [of 1 scenario_header] by blast
  from b have b': "detectEndian big_endian_three_header Endian_AUTO = Some (Inr (BIG, 3))"
    using C3_auto_detection [of 3 big_endian_three_header] by blast
  from c have c': "detectEndian big_endian_header Endian_AUTO = Some (Inr (LITTLE, - 1))"
    using C3_auto_detection [of "- 1" big_endian_header] by blast
  from d have d': "detectEndian unfit_header Endian_AUTO = Some (Inl AmbiguousFormat)"
    using C3_auto_detection [of _ unfit_header 65792 65792] by blast
  from a b c d a' b' c' d' show ?thesis by blast
qed

text \<open>
  C2, as stated, fails: \<open>parseHeader\<close> casts the id-spec and the motion flag to their
  enums without a range check. A header with id-spec 7 and motion flag 5 is decoded, and
  \<open>main\<close> prints its record.
\<close>

theorem C2_counterexample:
  "parseHeader header0_example unknown_kinds_catalog Epoch_AUTO Endian_AUTO =
     Some (Inr \<lparr>numStars = 1, starId = 7, starNameLength = 0, properMotion = 5,
       numMagnitudes = 1, apparentMagnitude = 0, numBytesPerStar = 20,
       epoch = B1950, littleEndian = True\<rparr>) \<and>
   main never_exceeds header0_example default_options unknown_kinds_catalog =
     Some (Inr [Fprintf ''%.17lf,%.17lf,%.17lf''
                  [ArgDouble 0x3FF0000000000000, ArgDouble 0x4000000000000000,
                   ArgMagnitude 450],
                Fputc CHR ''\<newline>''])"
  by code_simp

text \<open>
  C2, amended. \<open>parseHeader\<close> has no range check on the id-spec at offset 12 or on the
  motion flag at offset 16. For every header of 28 bytes that passes the byte-order probe
  and whose derived epoch does not contradict the hint, decoding succeeds whatever the
  two fields hold: a non-negative id-spec is stored as the id kind as it is, a negative
  one gives \<open>NO_STAR_ID\<close> and its negation as the name length, and the motion flag is
  stored as the motion kind as it is.
\<close>

theorem C2_no_range_check:
  assumes "28 \<le> length data"
    and "detectEndian data endian = Some (Inr (e, nmag))"
    and "parse_int32 data 8 (e = LITTLE) = Some starn"
    and "parse_int32 data 12 (e = LITTLE) = Some stnum"
    and "parse_int32 data 16 (e = LITTLE) = Some mprop"
    and "\<not> (epch = J2000 \<and> \<not> (sint starn < 0 \<or> sint nmag < 0))"
    and "\<not> (epch = B1950 \<and> (sint starn < 0 \<or> sint nmag < 0))"
  shows "\<exists>h. parseHeader header data epch endian = Some (Inr h) \<and>
             starId h = (if sint stnum < 0 then NO_STAR_ID else stnum) \<and>
             starNameLength h = (if sint stnum < 0 then - stnum else 0) \<and>
             properMotion h = mprop"
proof -
  from assms(1) obtain nbent where "parse_int32 data 24 (e = LITTLE) = Some nbent"
    by (simp add: parse_int32_in_range)
  with assms show ?thesis
    by (simp add: parseHeader_def fillHeader_def Let_def)
qed

theorem C2_no_range_check_witness:
  "28 \<le> length unknown_kinds_catalog \<and>
   detectEndian unknown_kinds_catalog Endian_AUTO = Some (Inr (LITTLE, 1)) \<and>
   parse_int32 unknown_kinds_catalog 8 (LITTLE = LITTLE) = Some 1 \<and>
   parse_int32 unknown_kinds_catalog 12 (LITTLE = LITTLE) = Some 7 \<and>
   parse_int32 unknown_kinds_catalog 16 (LITTLE = LITTLE) = Some 5 \<and>
   (\<exists>h. parseHeader header0_example unknown_kinds_catalog Epoch_AUTO Endian_AUTO =
          Some (Inr h) \<and>
        starId h = 7 \<and> starNameLength h = 0 \<and> properMotion h = 5)"
proof -
  have a: "28 \<le> length unknown_kinds_catalog" by (simp add: unknown_kinds_catalog_def)
  have b: "detectEndian unknown_kinds_catalog Endian_AUTO = Some (Inr (LITTLE, 1))"
    by (simp add: header_eval unknown_kinds_catalog_def)
  have c: "parse_int32 unknown_kinds_catalog 8 (LITTLE = LITTLE) = Some 1"
    by (simp add: header_eval unknown_kinds_catalog_def)
  have d: "parse_int32 unknown_kinds_catalog 12 (LITTLE = LITTLE) = Some 7"
    by (simp add: header_eval unknown_kinds_catalog_def)
  have e: "parse_int32 unknown_kinds_catalog 16 (LITTLE = LITTLE) = Some 5"
    by (simp add: header_eval unknown_kinds_catalog_def)
  have f: "\<not> (Epoch_AUTO = J2000 \<and> \<not> (sint (1 :: 32 word) < 0 \<or> sint (1 :: 32 word) < 0))"
    by simp
  have g: "\<not> (Epoch_AUTO = B1950 \<and> (sint (1 :: 32 word) < 0 \<or> sint (1 :: 32 word) < 0))"
    by simp
  show ?thesis
    using C2_no_range_check [OF a b c d e f g, of header0_example] a b c d e by simp
qed

section \<open>Lemmas on parseStar\<close>

lemma magLoop_cursor:
  "magLoop header data p n i cursor mag = Some (cursor', mag') \<Longrightarrow>
   cursor' = cursor + 2 * int n"
proof (induction n arbitrary: i cursor mag)
  case 0
  then show ?case by simp
next
  case (Suc n)
  from Suc.prems obtain i' mag'' where
    "magLoop header data p n i' (cursor + 2) mag'' = Some (cursor', mag')"
    by (auto split: if_splits option.splits)
  from Suc.IH [OF this] show ?case by simp
qed

lemma strncpy_string:
  "strncpy data q n = Some dest \<Longrightarrow>
   string_of_cstr dest = takeWhile (\<lambda>c. c \<noteq> 0) (take n (drop (nat q) data))"
proof (induction n arbitrary: q dest)
  case 0
  then show ?case by (simp add: string_of_cstr_def)
next
  case (Suc n)
  from Suc.prems obtain c where c: "byteAt data q = Some c"
    by (auto split: option.splits)
  then have q: "0 \<le> q" "nat q < length data" "data ! nat q = c"
    by (auto simp: byteAt_def split: if_splits)
  then have d: "drop (nat q) data = c # drop (nat (q + 1)) data"
    using Cons_nth_drop_Suc [of "nat q" data] by (simp add: nat_add_distrib)
  show ?case
  proof (cases "c = 0")
    case True
    with Suc.prems c d show ?thesis by (auto simp add: string_of_cstr_def)
  next
    case False
    with Suc.prems c obtain dest' where
      dest': "strncpy data (q + 1) n = Some dest'" "dest = c # dest'"
      by auto
    from Suc.IH [OF dest'(1)] False d dest'(2) show ?thesis
      by (simp add: string_of_cstr_def)
  qed
qed

lemma readStarId_cursor:
  "readStarId header data p cursor = Some (xno, cursor') \<Longrightarrow>
   cursor' = cursor +
     (if starId header = CATALOG_STAR_ID \<or> starId header = GSC_STAR_ID \<or>
         starId header = TYCHO_STAR_ID \<or> starId header = INTEGER_STAR_ID then 4 else 0)"
  by (auto simp: readStarId_def split: if_splits Option.bind_splits)

lemma readMotion_cursor:
  "readMotion header data p cursor = Some (xrpm, xdpm, svel, cursor') \<Longrightarrow>
   cursor' = cursor +
     (if properMotion header = PROPER_MOTION \<or> properMotion header = RADIAL_VELOCITY
      then 8 else 0)"
  by (auto simp: readMotion_def split: if_splits Option.bind_splits)

lemma readName_string:
  "readName header data p cursor = Some starname \<Longrightarrow>
   string_of_cstr starname =
     (if 0 < sint (starNameLength header)
      then takeWhile (\<lambda>c. c \<noteq> 0)
             (take (nat (sint (starNameLength header))) (drop (nat (p + cursor)) data))
      else [])"
  by (auto simp: readName_def string_of_cstr_def [of "[]"] dest: strncpy_string
      split: if_splits)

lemma parseStar_SomeD:
  assumes "parseStar header data p = Some star"
  shows "\<exists>xno c1 ra decl isp0 isp1 c2 mag xrpm xdpm svel c3 starname m.
     readStarId header data p 0 = Some (xno, c1) \<and>
     parse_double data (p + c1) (littleEndian header) = Some ra \<and>
     parse_double data (p + (c1 + 8)) (littleEndian header) = Some decl \<and>
     byteAt data (p + (c1 + 16)) = Some isp0 \<and>
     byteAt data (p + (c1 + 17)) = Some isp1 \<and>
     magLoop header data p (nat (sint (numMagnitudes header))) 0 (c1 + 18) None =
       Some (c2, mag) \<and>
     readMotion header data p c2 = Some (xrpm, xdpm, svel, c3) \<and>
     readName header data p c3 = Some starname \<and>
     mag = Some m \<and>
     star = \<lparr>name = string_of_cstr starname, rightAscension = ra, declination = decl,
       starIdValue = xno, magnitude = m, pmRightAscension = xrpm, pmDeclination = xdpm,
       radialVelocity = svel, spectralType = [isp0, isp1]\<rparr>"
  using assms
  by (simp add: parseStar_def bind_eq_Some_conv split_paired_Ex) blast

text \<open>
  A header that \<open>parseHeader\<close> returns has a name length above 0 only with the id kind
  \<open>NO_STAR_ID\<close>.
\<close>

lemma parseHeader_name_without_id:
  "parseHeader header data epch endian = Some (Inr h) \<Longrightarrow>
   0 < sint (starNameLength h) \<Longrightarrow> starId h = NO_STAR_ID"
  by (auto simp: parseHeader_def fillHeader_def Let_def
      split: Option.bind_splits sum.splits if_splits)

section \<open>Properties of parseStar\<close>

text \<open>
  C8, as stated, fails: the name is copied with \<open>strncpy\<close> and read back as a C string,
  so that it ends at the first NUL among its bytes. For a name length of 3 and the name
  bytes \<open>A\<close>, NUL, \<open>C\<close>, the decoded name is \<open>A\<close>, not the three bytes.
\<close>

theorem C8_counterexample:
  "mainHeader header0_example (default_options\<lparr>opt_usename := True\<rparr>) nul_name_catalog =
     Some (Inr (nul_name_header, True)) \<and>
   starId nul_name_header = NO_STAR_ID \<and> 0 < sint (starNameLength nul_name_header) \<and>
   take 3 (drop 48 nul_name_catalog) = [0x41, 0x00, 0x43] \<and>
   parseStar nul_name_header nul_name_catalog 28 =
     Some \<lparr>name = [0x41], rightAscension = 0x3FF0000000000000,
       declination = 0x4000000000000000, starIdValue = IdZero, magnitude = 450,
       pmRightAscension = 0, pmDeclination = 0, radialVelocity = 0,
       spectralType = [0x41, 0x30]\<rparr>"
  by code_simp

text \<open>
  C8, amended. For every header and every record that \<open>parseStar\<close> decodes: if the name
  length of the header is above 0 (which, in a header from \<open>parseHeader\<close>, comes with the
  id kind \<open>NO_STAR_ID\<close>), the name is the bytes at the name position up to the first NUL
  among them, and all \<open>starNameLength\<close> of them if none is NUL; otherwise the name is
  empty.
\<close>

theorem C8_name_up_to_nul:
  assumes "parseStar header data p = Some star"
  shows "name star =
     (if 0 < sint (starNameLength header)
      then takeWhile (\<lambda>c. c \<noteq> 0)
             (take (nat (sint (starNameLength header)))
                (drop (nat (p + nameOffset header)) data))
      else [])"
proof -
  from parseStar_SomeD [OF assms] obtain xno c1 c2 mag xrpm xdpm svel c3 starname where
    a: "readStarId header data p 0 = Some (xno, c1)"
    and b: "magLoop header data p (nat (sint (numMagnitudes header))) 0 (c1 + 18) None =
              Some (c2, mag)"
    and c: "readMotion header data p c2 = Some (xrpm, xdpm, svel, c3)"
    and d: "readName header data p c3 = Some starname"
    and e: "name star = string_of_cstr starname"
    by fastforce
  from readStarId_cursor [OF a] magLoop_cursor [OF b] readMotion_cursor [OF c]
  have "c3 = nameOffset header" by (simp add: nameOffset_def)
  with readName_string [OF d] e show ?thesis by simp
qed

theorem C8_name_up_to_nul_witness:
  "(parseStar scenario_decoded scenario_catalog 28 =
      Some \<lparr>name = [0x41, 0x42, 0x43], rightAscension = 0x3FF0000000000000,
        declination = 0x4000000000000000, starIdValue = IdZero, magnitude = 450,
        pmRightAscension = 0, pmDeclination = 0, radialVelocity = 0,
        spectralType = [0x41, 0x30]\<rparr> \<and>
    0 < sint (starNameLength scenario_decoded) \<and>
    [0x41, 0x42, 0x43] =
      takeWhile (\<lambda>c. c \<noteq> 0)
        (take (nat (sint (starNameLength scenario_decoded)))
           (drop (nat (28 + nameOffset scenario_decoded)) scenario_catalog))) \<and>
   (parseStar unknown_kinds_decoded unknown_kinds_catalog 28 =
      Some \<lparr>name = [], rightAscension = 0x3FF0000000000000,
        declination = 0x4000000000000000, starIdValue = IdZero, magnitude = 450,
        pmRightAscension = 0, pmDeclination = 0, radialVelocity = 0,
        spectralType = [0x41, 0x30]\<rparr> \<and>
    \<not> 0 < sint (starNameLength unknown_kinds_decoded))"
proof -
  have a: "parseStar scenario_decoded scenario_catalog 28 =
      Some \<lparr>name = [0x41, 0x42, 0x43], rightAscension = 0x3FF0000000000000,
        declination = 0x4000000000000000, starIdValue = IdZero, magnitude = 450,
        pmRightAscension = 0, pmDeclination = 0, radialVelocity = 0,
        spectralType = [0x41, 0x30]\<rparr>"
    by code_simp
  have b: "parseStar unknown_kinds_decoded unknown_kinds_catalog 28 =
      Some \<lparr>name = [], rightAscension = 0x3FF0000000000000,
        declination = 0x4000000000000000, starIdValue = IdZero, magnitude = 450,
        pmRightAscension = 0, pmDeclination = 0, radialVelocity = 0,
        spectralType = [0x41, 0x30]\<rparr>"
    by code_simp
  have c: "0 < sint (starNameLength scenario_decoded)"
    by (simp add: scenario_decoded_def)
  have d: "\<not> 0 < sint (starNameLength unknown_kinds_decoded)"
    by (simp add: unknown_kinds_decoded_def)
  from C8_name_up_to_nul [OF a] C8_name_up_to_nul [OF b] a b c d show ?thesis
    by simp
qed

text \<open>
  The magnitude that \<open>parseStar\<close> keeps is the 16-bit field at the index
  \<open>apparentMagnitude\<close> of the header, which is an index below \<open>numMagnitudes\<close> wherever
  \<open>parseStar\<close> is defined; the cursor advances past all the fields (\<open>magLoop_cursor\<close>).
\<close>

lemma magLoop_mag:
  "magLoop header data p n i cursor mag = Some (cursor', mag') \<Longrightarrow>
   mag' =
     (if i \<le> sint (apparentMagnitude header) \<and> sint (apparentMagnitude header) < i + int n
      then parse_int16 data (p + cursor + 2 * (sint (apparentMagnitude header) - i))
             (littleEndian header)
      else mag) \<and>
   (i \<le> sint (apparentMagnitude header) \<and> sint (apparentMagnitude header) < i + int n \<longrightarrow>
      mag' \<noteq> None)"
proof (induction n arbitrary: i cursor mag)
  case 0
  then show ?case by auto
next
  case (Suc n)
  show ?case
  proof (cases "i = sint (apparentMagnitude header)")
    case True
    with Suc.prems obtain m where
      m: "parse_int16 data (p + cursor) (littleEndian header) = Some m"
         "magLoop header data p n (i + 1) (cursor + 2) (Some m) = Some (cursor', mag')"
      by (auto split: option.splits)
    from Suc.IH [OF m(2)] True m(1) show ?thesis by simp
  next
    case False
    with Suc.prems have
      "magLoop header data p n (i + 1) (cursor + 2) mag = Some (cursor', mag')"
      by simp
    from Suc.IH [OF this] False show ?thesis by (auto simp: algebra_simps)
  qed
qed

lemma parseStar_magnitude:
  assumes "parseStar header data p = Some star"
  shows "0 \<le> sint (apparentMagnitude header) \<and>
         sint (apparentMagnitude header) < sint (numMagnitudes header) \<and>
         parse_int16 data (p + (idWidth header + 18 + 2 * sint (apparentMagnitude header)))
           (littleEndian header) = Some (magnitude star)"
proof -
  from parseStar_SomeD [OF assms] obtain xno c1 c2 m where
    a: "readStarId header data p 0 = Some (xno, c1)"
    and b: "magLoop header data p (nat (sint (numMagnitudes header))) 0 (c1 + 18) None =
              Some (c2, Some m)"
    and e: "magnitude star = m"
    by fastforce
  from readStarId_cursor [OF a] have c1: "c1 = idWidth header" by (simp add: idWidth_def)
  from magLoop_mag [OF b] have r: "0 \<le> sint (apparentMagnitude header) \<and>
      sint (apparentMagnitude header) < int (nat (sint (numMagnitudes header)))"
    by (auto split: if_splits)
  with magLoop_mag [OF b] c1 e show ?thesis
    by (auto simp: algebra_simps split: if_splits)
qed

section \<open>Lemmas on the header checks of main\<close>

lemma unat_scast_nonneg:
  assumes "0 \<le> sint (w :: 32 word)"
  shows "unat (scast w :: 64 word) = nat (sint w)"
proof -
  have lt: "sint w < 2 ^ 64"
    using sint_lt [of w] by simp
  have "(scast w :: 64 word) = word_of_int (sint w)" by simp
  then have "uint (scast w :: 64 word) = take_bit 64 (sint w)"
    by (simp only: uint_word_of_int_eq) simp
  also have "\<dots> = sint w" using assms lt by (simp add: take_bit_int_eq_self)
  finally have "nat (uint (scast w :: 64 word)) = nat (sint w)" by (rule arg_cong)
  then show ?thesis by (simp only: unat_eq_nat_uint)
qed

lemma std_min_pred:
  assumes "1 \<le> sint n"
  shows "std_min (n - 1) n = n - 1"
proof -
  have "sint n < 2147483648" using sint_lt [of n] by simp
  with assms have "sint (n - 1) = sint n - 1"
    by (simp add: sint_word_ariths signed_take_bit_int_eq_self)
  then show ?thesis by (simp add: std_min_def)
qed

text \<open>
  The selector that the header keeps is the last index, whatever the option \<open>-a\<close> was:
  the option does not occur in the result of \<open>mainHeader\<close>.
\<close>

lemma mainHeader_selector_unused:
  "mainHeader header0 (opts\<lparr>opt_apparentMagnitude := a\<rparr>) data = mainHeader header0 opts data"
  by (simp add: mainHeader_def Let_def cong: if_cong)

lemma mainHeader_apparentMagnitude:
  "mainHeader header0 opts data = Some (Inr (h, u)) \<Longrightarrow>
   1 \<le> sint (numMagnitudes h) \<and> apparentMagnitude h = numMagnitudes h - 1"
  by (auto simp: mainHeader_def Let_def std_min_pred
      split: if_splits Option.bind_splits sum.splits)

text \<open>
  The three header checks of \<open>main\<close>, where the arithmetic of the size check does not
  overflow.
\<close>

lemma mainHeader_no_header:
  "length data < 28 \<Longrightarrow>
   mainHeader header0 opts data =
     Some (Inl (if length data = 0 then EmptyFile else NoHeader))"
  by (simp add: mainHeader_def)

lemma mainHeader_file_too_short:
  assumes "28 \<le> length data"
    and "parseHeader header0 data (opt_epoch opts) (opt_endian opts) = Some (Inr h)"
    and "sint (numStars h) * sint (numBytesPerStar h) < 2147483620"
    and "int (length data) < 28 + sint (numStars h) * sint (numBytesPerStar h)"
  shows "mainHeader header0 opts data = Some (Inl FileTooShort)"
proof -
  let ?P = "sint (numStars h) * sint (numBytesPerStar h)"
  from assms(1,4) have nn: "0 \<le> ?P" by linarith
  with assms(3) have "sint (numStars h * numBytesPerStar h) = ?P"
    by (simp add: sint_word_ariths signed_take_bit_int_eq_self)
  with nn assms(3) have s: "sint (28 + numStars h * numBytesPerStar h) = 28 + ?P"
    by (simp add: sint_word_ariths signed_take_bit_int_eq_self)
  with nn have "unat (scast (28 + numStars h * numBytesPerStar h) :: 64 word) = nat (28 + ?P)"
    by (simp add: unat_scast_nonneg)
  with assms show ?thesis
    by (auto simp add: mainHeader_def Let_def)
qed

lemma mainHeader_too_few_magnitudes:
  assumes "28 \<le> length data"
    and "parseHeader header0 data (opt_epoch opts) (opt_endian opts) = Some (Inr h)"
    and "sint (numMagnitudes h) < 1"
  shows "mainHeader header0 opts data = Some (Inl FileTooShort) \<or>
         mainHeader header0 opts data = Some (Inl TooFewMagnitudes)"
  using assms by (auto simp add: mainHeader_def Let_def)

lemma starLoop_undefined:
  "0 < n \<Longrightarrow> parseStar header data (sint cursor) = None \<Longrightarrow>
   starLoop exceeds flt header data srt n i cursor m = None"
  by (cases n) simp_all


text \<open>
  The record stride is read as an \<open>int\<close> and not checked for its sign. With the
  stride -1 the size check compares the size of the file with 28 - 2: \<open>main\<close> decodes two
  records, at the offsets 28 and 27, and prints them.
\<close>

lemma negative_stride_accepted:
  "length negative_stride_catalog = 48 \<and>
   main never_exceeds header0_example default_options negative_stride_catalog =
     Some (Inr [Fprintf ''%.17lf,%.17lf,%.17lf''
                  [ArgDouble 0x3FF0000000000000, ArgDouble 0x4000000000000000,
                   ArgMagnitude 450],
                Fputc CHR ''\<newline>'',
                Fprintf ''%.17lf,%.17lf,%.17lf''
                  [ArgDouble 0xF0000000000000FF, ArgDouble 0x3F, ArgMagnitude 0xC230],
                Fputc CHR ''\<newline>''])"
  by code_simp

section \<open>Properties of the header checks of main\<close>

text \<open>
  C1. The option \<open>-a\<close> sets the local \<open>apparentMagnitude\<close> of \<open>main\<close>, but line 737 takes
  \<open>std::min(header.numMagnitudes - 1, header.numMagnitudes)\<close>: the selector is always the
  last index. For a catalog with the two magnitudes 1.00 and 4.50 and the selector 0,
  the header keeps the index 1 and the star the magnitude 4.50 (the field 450 at offset
  20 of the record, not the field 100 at offset 18).
\<close>

theorem C1_selector_not_used:
  "mainHeader header0_example (default_options\<lparr>opt_apparentMagnitude := 0\<rparr>)
     two_magnitudes_catalog = Some (Inr (two_magnitudes_decoded, False)) \<and>
   numMagnitudes two_magnitudes_decoded = 2 \<and>
   apparentMagnitude two_magnitudes_decoded = 1 \<and>
   parse_int16 two_magnitudes_catalog (28 + 18) True = Some 100 \<and>
   parse_int16 two_magnitudes_catalog (28 + 20) True = Some 450 \<and>
   parseStar two_magnitudes_decoded two_magnitudes_catalog 28 =
     Some \<lparr>name = [], rightAscension = 0x3FF0000000000000,
       declination = 0x4000000000000000, starIdValue = IdZero, magnitude = 450,
       pmRightAscension = 0, pmDeclination = 0, radialVelocity = 0,
       spectralType = [0x41, 0x30]\<rparr>"
  by code_simp

text \<open>
  C5. The size check of line 727 multiplies two \<open>int\<close>s. For a file of 28 bytes whose
  header declares 65536 stars of 65536 bytes, the product wraps to 0: the check passes,
  although 28 + 65536 * 65536 exceeds the 28 bytes of the file, and the loop over the
  records then reads outside the buffer.
\<close>

theorem C5_overflow_accepted:
  "length overflow_header = 28 \<and>
   int (length overflow_header) <
     28 + sint (numStars overflow_decoded) * sint (numBytesPerStar overflow_decoded) \<and>
   mainHeader header0_example default_options overflow_header =
     Some (Inr (overflow_decoded, False)) \<and>
   main never_exceeds header0_example default_options overflow_header = None"
proof -
  have h: "mainHeader header0_example default_options overflow_header =
      Some (Inr (overflow_decoded, False))"
    by code_simp
  have a: "parseStar overflow_decoded overflow_header (sint (28 :: 32 word)) = None"
    by code_simp
  have b: "0 < nat (sint (numStars overflow_decoded))"
    by (simp add: overflow_decoded_def)
  have c: "\<not> opt_onlymeta default_options"
    by (simp add: default_options_def)
  have m: "main never_exceeds header0_example default_options overflow_header = None"
    by (simp add: main_def h c starLoop_undefined [OF b a])
  have l: "length overflow_header = 28 \<and>
      int (length overflow_header) <
        28 + sint (numStars overflow_decoded) * sint (numBytesPerStar overflow_decoded)"
    by (simp add: overflow_header_def overflow_decoded_def)
  from l h m show ?thesis by simp
qed

section \<open>Properties of sanitizeForC\<close>

lemma tolower_not_upper: "\<not> isupper_c (tolower_c c)"
  by (auto simp: tolower_c_def isupper_c_def)

lemma tolower_idem: "tolower_c (tolower_c c) = tolower_c c"
  using tolower_not_upper [of c] by (simp add: tolower_c_def [of "tolower_c c"])

lemma alnum_not_nul: "isalnum_c c \<Longrightarrow> c \<noteq> CHR 0x00"
  by (auto simp: isalnum_c_def isalpha_c_def isupper_c_def islower_c_def isdigit_c_def)

lemma placeholder_facts:
  "isalpha_c CHR ''x''" "tolower_c CHR ''x'' = CHR ''x''" "CHR ''x'' \<noteq> CHR 0x00"
  "\<not> isalnum_c CHR ''_''" "tolower_c CHR ''_'' = CHR ''_''" "CHR ''_'' \<noteq> CHR 0x00"
  by (simp_all add: isalnum_c_def isalpha_c_def isupper_c_def islower_c_def isdigit_c_def
      tolower_c_def)

lemma sanitizeLoop_rest: "\<forall>d \<in> set (sanitizeLoop False cs). isalnum_c d \<or> d = CHR ''_''"
  by (induction cs) (auto simp: Let_def)

lemma sanitizeLoop_idem: "sanitizeLoop b (sanitizeLoop b cs) = sanitizeLoop b cs"
proof (induction cs arbitrary: b)
  case Nil
  then show ?case by simp
next
  case (Cons c cs)
  show ?case
  proof (cases "c = CHR 0x00")
    case True
    then show ?thesis by simp
  next
    case False
    define o' where "o' =
      (if b then (if isalpha_c (tolower_c c) then tolower_c c else CHR ''x'')
       else (if isalnum_c (tolower_c c) then tolower_c c else CHR ''_''))"
    have s: "sanitizeLoop b (c # cs) = o' # sanitizeLoop False cs"
      using False by (simp add: o'_def Let_def)
    have nz: "o' \<noteq> CHR 0x00"
      using alnum_not_nul [of "tolower_c c"]
      by (auto simp: o'_def placeholder_facts isalnum_c_def)
    have tl: "tolower_c o' = o'"
      by (auto simp: o'_def placeholder_facts tolower_idem)
    have keep: "(if b then (if isalpha_c o' then o' else CHR ''x'')
         else (if isalnum_c o' then o' else CHR ''_'')) = o'"
      by (auto simp: o'_def placeholder_facts)
    have "sanitizeLoop b (sanitizeLoop b (c # cs)) =
        sanitizeLoop b (o' # sanitizeLoop False cs)"
      by (simp only: s)
    also have "\<dots> = o' # sanitizeLoop False (sanitizeLoop False cs)"
      using nz keep by (simp add: tl Let_def)
    also have "\<dots> = o' # sanitizeLoop False cs"
      by (simp only: Cons.IH)
    also have "\<dots> = sanitizeLoop b (c # cs)"
      by (simp only: s)
    finally show ?thesis .
  qed
qed

text \<open>
  C9, as stated, fails for the empty string: its loop body never runs, the result is
  empty and starts with no letter.
\<close>

theorem C9_counterexample:
  "sanitizeForC [] = [] \<and> \<not> valid_identifier (sanitizeForC [])"
  by (simp add: valid_identifier_def sanitizeForC_def)

text \<open>
  C9, amended. For every non-empty input string, the result of \<open>sanitizeForC\<close> starts
  with a letter and has only letters, digits and underscores after it; and for every
  input string, sanitizing the result again gives the same result.
\<close>

theorem C9_sanitizeForC:
  "(cs \<noteq> [] \<and> hd cs \<noteq> CHR 0x00 \<longrightarrow> valid_identifier (sanitizeForC cs)) \<and>
   sanitizeForC (sanitizeForC cs) = sanitizeForC cs"
proof
  show "cs \<noteq> [] \<and> hd cs \<noteq> CHR 0x00 \<longrightarrow> valid_identifier (sanitizeForC cs)"
    using sanitizeLoop_rest
    by (cases cs) (auto simp: sanitizeForC_def valid_identifier_def Let_def placeholder_facts)
  show "sanitizeForC (sanitizeForC cs) = sanitizeForC cs"
    by (simp add: sanitizeForC_def sanitizeLoop_idem)
qed

theorem C9_sanitizeForC_witness:
  "''9 Lives.bin'' \<noteq> [] \<and> hd ''9 Lives.bin'' \<noteq> CHR 0x00 \<and>
   sanitizeForC ''9 Lives.bin'' = ''x_lives_bin'' \<and>
   valid_identifier ''x_lives_bin'' \<and>
   sanitizeForC ''x_lives_bin'' = ''x_lives_bin''"
proof -
  have a: "''9 Lives.bin'' \<noteq> [] \<and> hd ''9 Lives.bin'' \<noteq> CHR 0x00" by simp
  have b: "sanitizeForC ''9 Lives.bin'' = ''x_lives_bin''" by code_simp
  from C9_sanitizeForC [of "''9 Lives.bin''"] a b show ?thesis by simp
qed

section \<open>Lemmas on the multimap\<close>

text \<open>
  The loop that rebalances the tree leaves the iteration order as it is: for the
  elements in their order, \<open>insert\<close> is the insertion of a new leaf at the place of the
  descent, whatever the keys are.
\<close>

lemma mm_list_rotate_left: "mm_list (rotate_left t) = mm_list t"
  by (induction t rule: rotate_left.induct) simp_all

lemma mm_list_rotate_right: "mm_list (rotate_right t) = mm_list t"
  by (induction t rule: rotate_right.induct) simp_all

lemma mm_list_paint: "mm_list (paint c t) = mm_list t"
  by (cases t) simp_all

lemma mm_list_attach:
  "mm_list t = mm_list t' \<Longrightarrow> mm_list (attach t p) = mm_list (attach t' p)"
  by (induction t p rule: attach.induct) simp_all

lemma mm_list_rebuild:
  "mm_list t = mm_list t' \<Longrightarrow> mm_list (rebuild t path) = mm_list (rebuild t' path)"
proof (induction path arbitrary: t t')
  case Nil
  then show ?case by simp
next
  case (Cons p path)
  from Cons.prems have "mm_list (attach t p) = mm_list (attach t' p)"
    by (rule mm_list_attach)
  from Cons.IH [OF this] show ?case by simp
qed

lemma mm_list_insert_and_rebalance:
  "mm_list (insert_and_rebalance x path) = mm_list (rebuild x path)"
proof (induction x path rule: insert_and_rebalance.induct)
  case (1 x)
  then show ?case by simp
next
  case (2 x p)
  then show ?case by simp
next
  case (3 x sx cp kp vp tp sp cg kg vg y path)
  let ?parent = "attach x (Frame sx cp kp vp tp)"
  let ?g = "attach ?parent (Frame sp cg kg vg y)"
  have whole: "rebuild x (Frame sx cp kp vp tp # Frame sp cg kg vg y # path) = rebuild ?g path"
    by simp
  show ?case
  proof (cases "cp = S_black")
    case True
    then show ?thesis by simp
  next
    case red: False
    show ?thesis
    proof (cases sp)
      case LeftSide
      show ?thesis
      proof (cases "is_red y")
        case True
        let ?x' = "Node S_red (paint S_black ?parent) kg vg (paint S_black y)"
        from red LeftSide True have "insert_and_rebalance x
            (Frame sx cp kp vp tp # Frame sp cg kg vg y # path) = insert_and_rebalance ?x' path"
          by simp
        moreover from 3(1) [OF refl red LeftSide True]
        have "mm_list (insert_and_rebalance ?x' path) = mm_list (rebuild ?x' path)" .
        moreover have "mm_list ?x' = mm_list ?g"
          using LeftSide by (simp add: mm_list_paint)
        ultimately show ?thesis
          by (simp only: whole mm_list_rebuild [of ?x' ?g])
      next
        case False
        let ?t = "rotate_right (Node S_red
            (paint S_black (if sx = RightSide then rotate_left ?parent else ?parent)) kg vg y)"
        from red LeftSide False have "insert_and_rebalance x
            (Frame sx cp kp vp tp # Frame sp cg kg vg y # path) = rebuild ?t path"
          by simp
        moreover have "mm_list ?t = mm_list ?g"
          using LeftSide by (simp add: mm_list_paint mm_list_rotate_left mm_list_rotate_right)
        ultimately show ?thesis
          by (simp only: whole mm_list_rebuild [of ?t ?g])
      qed
    next
      case RightSide
      show ?thesis
      proof (cases "is_red y")
        case True
        let ?x' = "Node S_red (paint S_black y) kg vg (paint S_black ?parent)"
        from red RightSide True have "insert_and_rebalance x
            (Frame sx cp kp vp tp # Frame sp cg kg vg y # path) = insert_and_rebalance ?x' path"
          by simp
        moreover from 3(2) [OF refl red RightSide True]
        have "mm_list (insert_and_rebalance ?x' path) = mm_list (rebuild ?x' path)" .
        moreover have "mm_list ?x' = mm_list ?g"
          using RightSide by (simp add: mm_list_paint)
        ultimately show ?thesis
          by (simp only: whole mm_list_rebuild [of ?x' ?g])
      next
        case False
        let ?t = "rotate_left (Node S_red y kg vg
            (paint S_black (if sx = LeftSide then rotate_right ?parent else ?parent)))"
        from red RightSide False have "insert_and_rebalance x
            (Frame sx cp kp vp tp # Frame sp cg kg vg y # path) = rebuild ?t path"
          by simp
        moreover have "mm_list ?t = mm_list ?g"
          using RightSide by (simp add: mm_list_paint mm_list_rotate_left mm_list_rotate_right)
        ultimately show ?thesis
          by (simp only: whole mm_list_rebuild [of ?t ?g])
      qed
    qed
  qed
qed

lemma rebuild_get_insert_equal_pos:
  "rebuild (Node S_red Leaf k v Leaf) (get_insert_equal_pos k t path) =
   rebuild (bst_insert k v t) path"
  by (induction t arbitrary: path) simp_all

lemma mm_list_mm_insert: "mm_list (mm_insert k v m) = mm_list (bst_insert k v m)"
  using rebuild_get_insert_equal_pos [of k v m "[]"]
  by (simp add: mm_insert_def mm_list_paint mm_list_insert_and_rebalance)

lemma mset_bst_insert: "mset (mm_list (bst_insert k v t)) = add_mset (k, v) (mset (mm_list t))"
  by (induction t) simp_all

lemma mset_mm_insert: "mset (mm_list (mm_insert k v m)) = add_mset (k, v) (mset (mm_list m))"
  by (simp add: mm_list_mm_insert mset_bst_insert)

text \<open>
  The root is black after every \<open>insert\<close>: a red parent in the loop is not the root.
\<close>

lemma mm_insert_root_black: "\<not> is_red (mm_insert k v m)"
  by (cases "insert_and_rebalance (Node S_red Leaf k v Leaf) (get_insert_equal_pos k m [])")
    (simp_all add: mm_insert_def)










lemma insert_all_Cons:
  "insert_all srt m (r # rs) =
     insert_all srt (insert_upper_bound (fst (keyed srt r)) (snd (keyed srt r)) m) rs"
  by (simp add: insert_all_def)









lemma mm_insert_all_snoc:
  "mm_insert_all srt m (rs @ [r]) =
     mm_insert (fst (keyed srt r)) (snd (keyed srt r)) (mm_insert_all srt m rs)"
  by (simp add: mm_insert_all_def)

lemma mm_insert_all_Cons:
  "mm_insert_all srt m (r # rs) =
     mm_insert_all srt (mm_insert (fst (keyed srt r)) (snd (keyed srt r)) m) rs"
  by (simp add: mm_insert_all_def)

lemma mset_mm_insert_all:
  "mset (mm_list (mm_insert_all srt Leaf rs)) = mset (map (keyed srt) rs)"
proof (induction rs rule: rev_induct)
  case Nil
  then show ?case by (simp add: mm_insert_all_def)
next
  case (snoc r rs)
  then show ?case by (simp add: mm_insert_all_snoc mset_mm_insert)
qed

lemma set_mm_insert_all:
  "set (mm_list (mm_insert_all srt Leaf rs)) = set (map (keyed srt) rs)"
  using mset_mm_insert_all [of srt rs] by (metis set_mset_mset)


section \<open>Lemmas on the loop of main\<close>


lemma starLoop_insert_all:
  "starLoop exceeds flt header data srt n i cursor m = Some m' \<longleftrightarrow>
   (\<exists>rs. decodeRecords header data n i cursor = Some rs \<and>
      m' = mm_insert_all srt m (filter (\<lambda>r. survives exceeds flt (snd r)) rs))"
proof (induction n arbitrary: i cursor m)
  case 0
  then show ?case by (auto simp: mm_insert_all_def)
next
  case (Suc n)
  show ?case
  proof (cases "parseStar header data (sint cursor)")
    case None
    then show ?thesis by simp
  next
    case (Some star)
    show ?thesis
    proof (cases "survives exceeds flt star")
      case False
      then have "starLoop exceeds flt header data srt (Suc n) i cursor m =
          starLoop exceeds flt header data srt n (i + 1) (cursor + numBytesPerStar header) m"
        using Some by (auto simp: survives_def invalidEntry_def)
      with False Some show ?thesis
        by (auto simp: Suc.IH)
    next
      case True
      then have s: "\<not> exceeds (magnitude star) flt" "\<not> invalidEntry star"
        by (auto simp: survives_def invalidEntry_def)
      with Some have "starLoop exceeds flt header data srt (Suc n) i cursor m =
        starLoop exceeds flt header data srt n (i + 1) (cursor + numBytesPerStar header)
          (mm_insert (sortKey srt i star) star m)"
        by simp
      with Some True show ?thesis
        by (auto simp: Suc.IH mm_insert_all_Cons keyed_def)
    qed
  qed
qed


lemma double_less_rank: "double_less a b \<Longrightarrow> double_rank a < double_rank b"
  by (simp add: double_less_def)



section \<open>Properties of the loop of main\<close>

text \<open>
  C6. Whatever the filter threshold and the ordering are, no record with magnitude 0,
  right ascension 0 and declination 0 is in the multimap that the loop of \<open>main\<close> builds,
  whose stars, in its order, are the ones that \<open>main\<close> prints.
\<close>

theorem C6_no_zero_record:
  assumes "starLoop exceeds flt header data srt n i cursor Leaf = Some m"
  shows "\<forall>(k, star) \<in> set (mm_list m).
           \<not> (magnitude star = 0 \<and> double_is_zero (rightAscension star) \<and>
              double_is_zero (declination star))"
proof -
  from assms obtain rs where
    m: "m = mm_insert_all srt Leaf (filter (\<lambda>r. survives exceeds flt (snd r)) rs)"
    by (auto simp: starLoop_insert_all)
  show ?thesis
    by (auto simp: m set_mm_insert_all keyed_def survives_def)
qed

theorem C6_no_zero_record_witness:
  "map_option invalidEntry (parseStar zero_padded_decoded zero_padded_catalog 28) = Some True \<and>
   starLoop never_exceeds (opt_filterMagnitude default_options) zero_padded_decoded
     zero_padded_catalog NO 2 0 28 Leaf =
     Some (Node S_black Leaf (KeyIndex 1) example_star Leaf) \<and>
   mm_list (Node S_black Leaf (KeyIndex 1) example_star Leaf) = [(KeyIndex 1, example_star)] \<and>
   \<not> (magnitude example_star = 0 \<and> double_is_zero (rightAscension example_star) \<and>
      double_is_zero (declination example_star))"
proof -
  have a: "map_option invalidEntry (parseStar zero_padded_decoded zero_padded_catalog 28) =
      Some True"
    by code_simp
  have b: "starLoop never_exceeds (opt_filterMagnitude default_options) zero_padded_decoded
     zero_padded_catalog NO 2 0 28 Leaf = Some (Node S_black Leaf (KeyIndex 1) example_star Leaf)"
    by code_simp
  from C6_no_zero_record [OF b] a b show ?thesis by simp
qed




section \<open>Properties of the output\<close>

lemma name_output_simps:
  "name_output (Fprintf fmt args) = list_ex is_ArgName args"
  "name_output (Fputs str) = (str = TAB @ ''const char *name;\<newline>'')"
  "name_output (Fputc c) = False"
  by (simp_all add: name_output_def)

lemma is_ArgName_simps:
  "is_ArgName (ArgDouble d) = False" "is_ArgName (ArgMagnitude m) = False"
  "is_ArgName (ArgName n) = True" "is_ArgName (ArgType t) = False"
  "is_ArgName (ArgChar c) = False" "is_ArgName (ArgString s) = False"
  "is_ArgName (ArgInt i) = False" "is_ArgName (ArgUnsigned u) = False"
  by (simp_all add: is_ArgName_def)

lemma print_no_name:
  "ev \<in> set (print star header idx cformat usefloat False usetype) \<Longrightarrow> \<not> name_output ev"
  by (auto simp add: print_def name_output_simps is_ArgName_simps TAB_def split: if_splits)

lemma printCFooter_no_name: "ev \<in> set printCFooter \<Longrightarrow> \<not> name_output ev"
  by (auto simp add: printCFooter_def name_output_simps TAB_def)

lemma printMeta_no_name: "\<not> name_output (printMeta header)"
  by (simp add: printMeta_def name_output_simps is_ArgName_simps)

lemma printCHeader_no_name:
  "ev \<in> set (printCHeader inputfile nstars epch usefloat False usetype) \<Longrightarrow>
   \<not> name_output ev"
  by (auto simp add: printCHeader_def name_output_simps is_ArgName_simps TAB_def Let_def
      split: if_splits)

lemma mainHeader_usename:
  "mainHeader header0 opts data = Some (Inr (header, usename)) \<Longrightarrow>
   usename = (starNameLength header \<noteq> 0 \<and> opt_usename opts)"
  by (auto simp: mainHeader_def Let_def split: if_splits Option.bind_splits sum.splits)

lemma printStars_no_name:
  assumes "ev \<in> set (printStars header opts False m)"
  shows "\<not> name_output ev"
proof -
  from assms consider
    "ev \<in> set (printCHeader (opt_inputfile opts) (length (mm_list m)) (epoch header)
              (opt_usefloat opts) False (opt_usetype opts))"
    | idx star where "ev \<in> set (print star header idx (opt_cformat opts)
              (opt_usefloat opts) False (opt_usetype opts))"
    | "ev \<in> set printCFooter"
    by (auto simp: printStars_def split: if_splits)
  then show ?thesis
    by cases (auto dest: printCHeader_no_name print_no_name printCFooter_no_name)
qed

text \<open>
  C10. For every catalog whose decoded header has the name length 0, \<open>main\<close> clears
  the \<open>usename\<close> flag, whatever the option was, and no event of its output shows a name:
  no \<open>fprintf\<close> has the name of a star among its arguments, and the struct declaration has
  no member \<open>name\<close>.
\<close>

theorem C10_names_cleared:
  assumes "mainHeader header0 opts data = Some (Inr (header, usename))"
    and "starNameLength header = 0"
  shows "\<not> usename \<and>
     (\<forall>evs. main exceeds header0 opts data = Some (Inr evs) \<longrightarrow>
        (\<forall>ev \<in> set evs. \<not> name_output ev))"
proof (intro conjI allI impI ballI)
  from mainHeader_usename [OF assms(1)] assms(2) show u: "\<not> usename" by simp
  fix evs ev
  assume run: "main exceeds header0 opts data = Some (Inr evs)" and ev: "ev \<in> set evs"
  show "\<not> name_output ev"
  proof (cases "opt_onlymeta opts")
    case True
    with run assms(1) have "evs = [printMeta header]"
      by (simp add: main_def)
    with ev show ?thesis by (simp add: printMeta_no_name)
  next
    case False
    with run assms(1) u obtain m where "evs = printStars header opts False m"
      by (auto simp: main_def bind_eq_Some_conv)
    with ev show ?thesis by (simp add: printStars_no_name)
  qed
qed

theorem C10_names_cleared_witness:
  "mainHeader header0_example (default_options\<lparr>opt_usename := True\<rparr>) unknown_kinds_catalog =
     Some (Inr (unknown_kinds_decoded, False)) \<and>
   starNameLength unknown_kinds_decoded = 0 \<and>
   main never_exceeds header0_example (default_options\<lparr>opt_usename := True\<rparr>)
     unknown_kinds_catalog =
     Some (Inr [Fprintf ''%.17lf,%.17lf,%.17lf''
                  [ArgDouble 0x3FF0000000000000, ArgDouble 0x4000000000000000,
                   ArgMagnitude 450],
                Fputc CHR ''\<newline>'']) \<and>
   \<not> name_output (Fprintf ''%.17lf,%.17lf,%.17lf''
                  [ArgDouble 0x3FF0000000000000, ArgDouble 0x4000000000000000,
                   ArgMagnitude 450]) \<and>
   \<not> name_output (Fputc CHR ''\<newline>'')"
proof -
  have a: "mainHeader header0_example (default_options\<lparr>opt_usename := True\<rparr>)
      unknown_kinds_catalog = Some (Inr (unknown_kinds_decoded, False))"
    by code_simp
  have b: "starNameLength unknown_kinds_decoded = 0"
    by (simp add: unknown_kinds_decoded_def)
  have c: "main never_exceeds header0_example (default_options\<lparr>opt_usename := True\<rparr>)
      unknown_kinds_catalog =
      Some (Inr [Fprintf ''%.17lf,%.17lf,%.17lf''
                   [ArgDouble 0x3FF0000000000000, ArgDouble 0x4000000000000000,
                    ArgMagnitude 450],
                 Fputc CHR ''\<newline>''])"
    by code_simp
  from C10_names_cleared [OF a b, of never_exceeds] a b c show ?thesis by simp
qed

end
